theory Spec2Isabelle
  imports Main
begin

section \<open>Pastebin-Lite: the paste lifecycle and its HTTP handlers\<close>

text \<open>
  A shallow embedding of \<^verbatim>\<open>app/models.py\<close>, \<^verbatim>\<open>app/utils.py\<close>, \<^verbatim>\<open>app/schemas.py\<close> and the
  handlers of \<^verbatim>\<open>app/main.py\<close>.

  Conventions.
  \<^item> A timezone-aware UTC \<^verbatim>\<open>datetime\<close> is the integer number of microseconds since
    1970-01-01T00:00:00Z; Python's type holds the years 1 to 9999 only
    (\<open>datetime_min\<close> to \<open>datetime_max\<close>), and the operations that leave this range raise.
  \<^item> A Python \<^verbatim>\<open>str\<close> is a \<open>string\<close>; a character stands for the code point of the same
    number (code points from 256 on are outside the model).
  \<^item> The table \<^verbatim>\<open>pastes\<close> is a finite map from the primary key \<^verbatim>\<open>id\<close> to the row. A
    handler takes the table and returns the response with the table as committed.
    The store refuses what PostgreSQL and its driver refuse of these rows: a string
    with a NUL character, an integer that the 32-bit \<^verbatim>\<open>INTEGER\<close> column does not hold,
    and an insert under a key already present. Failures of the connection are not
    modelled.
  \<^item> What a handler reads from its surroundings is an argument (record \<open>ctx\<close>): the
    process environment, the wall clock at the request, the token drawn by
    \<^verbatim>\<open>secrets.token_urlsafe\<close>, and two facts of the interpreter (its bound on integer
    literals and its float arithmetic).
  \<^item> A raised exception is the \<open>Inl\<close> of a sum.
\<close>

subsection \<open>Data model (models.py)\<close>

type_synonym datetime = int

record Paste =
  paste_id :: string
  content :: string
  ttl_seconds :: "int option"
  max_views :: "int option"
  current_views :: int
  created_at :: datetime
  expires_at :: "datetime option"
  is_active :: bool

type_synonym db = "string \<rightharpoonup> Paste"

text \<open>
  The exception classes that the code tells apart, each with its message. A message
  that no response can show (the exception is caught and dropped, or only printed) is
  abbreviated.
\<close>

datatype py_exception =
  ValueError string | OSError string | OverflowError string | IntegrityError string
| DataError string

fun str_exc :: "py_exception \<Rightarrow> string" where
  "str_exc (ValueError msg) = msg"
| "str_exc (OSError msg) = msg"
| "str_exc (OverflowError msg) = msg"
| "str_exc (IntegrityError msg) = msg"
| "str_exc (DataError msg) = msg"

text \<open>
  The methods take \<^verbatim>\<open>current_time=None\<close>; with \<open>None\<close> they read the wall clock, which
  is the first argument here.
\<close>

definition is_expired :: "datetime \<Rightarrow> Paste \<Rightarrow> datetime option \<Rightarrow> bool" where
  "is_expired wall self current_time =
     (case expires_at self of
        None \<Rightarrow> False
      | Some e \<Rightarrow>
          (let current_time = (case current_time of None \<Rightarrow> wall | Some t \<Rightarrow> t)
           in current_time \<ge> e))"

definition is_view_limit_reached :: "Paste \<Rightarrow> bool" where
  "is_view_limit_reached self =
     (case max_views self of
        None \<Rightarrow> False
      | Some m \<Rightarrow> current_views self \<ge> m)"

definition is_available :: "datetime \<Rightarrow> Paste \<Rightarrow> datetime option \<Rightarrow> bool" where
  "is_available wall self current_time =
     (if \<not> is_active self then False
      else if is_expired wall self current_time then False
      else if is_view_limit_reached self then False
      else True)"

definition get_remaining_views :: "Paste \<Rightarrow> int option" where
  "get_remaining_views self =
     (case max_views self of
        None \<Rightarrow> None
      | Some m \<Rightarrow> (let remaining = m - current_views self in Some (max 0 remaining)))"

subsection \<open>Python strings and integers\<close>

text \<open>
  \<^verbatim>\<open>str.strip()\<close> drops the characters for which \<^verbatim>\<open>str.isspace\<close> holds: below 256 these
  are 9 to 13, 28 to 32, 133 and 160.
\<close>

definition py_isspace :: "char \<Rightarrow> bool" where
  "py_isspace c = ((of_char c :: nat) \<in> set [9, 10, 11, 12, 13, 28, 29, 30, 31, 32, 133, 160])"

definition py_strip :: "string \<Rightarrow> string" where
  "py_strip s = rev (dropWhile py_isspace (rev (dropWhile py_isspace s)))"

definition py_rstrip :: "char \<Rightarrow> string \<Rightarrow> string" where
  "py_rstrip ch s = rev (dropWhile (\<lambda>c. c = ch) (rev s))"

definition digit_of :: "char \<Rightarrow> nat option" where
  "digit_of c =
     (let k = (of_char c :: nat) in if 48 \<le> k \<and> k \<le> 57 then Some (k - 48) else None)"

text \<open>
  The digits of a decimal literal: at least one digit, and a single underscore
  only between two digits. The flag says that the character before was a digit.
\<close>

fun py_digits :: "nat \<Rightarrow> bool \<Rightarrow> string \<Rightarrow> nat option" where
  "py_digits acc prev_digit [] = (if prev_digit then Some acc else None)"
| "py_digits acc prev_digit (c # cs) =
     (if c = CHR ''_'' then
        (if prev_digit \<and> cs \<noteq> [] then py_digits acc False cs else None)
      else
        (case digit_of c of
           None \<Rightarrow> None
         | Some d \<Rightarrow> py_digits (10 * acc + d) True cs))"

text \<open>
  \<^verbatim>\<open>int(s)\<close> for a string, base 10; \<open>None\<close> is the \<^verbatim>\<open>ValueError\<close>. Around the literal
  \<^verbatim>\<open>int\<close> drops the white space other than the characters 28 to 31. An interpreter
  with \<^verbatim>\<open>sys.get_int_max_str_digits()\<close> \<open>= limit > 0\<close> refuses a literal of more than
  \<open>limit\<close> digit characters; \<open>limit = 0\<close> is no bound.
\<close>

definition int_isspace :: "char \<Rightarrow> bool" where
  "int_isspace c = ((of_char c :: nat) \<in> set [9, 10, 11, 12, 13, 32, 133, 160])"

definition py_int :: "nat \<Rightarrow> string \<Rightarrow> int option" where
  "py_int limit s =
     (case rev (dropWhile int_isspace (rev (dropWhile int_isspace s))) of
        [] \<Rightarrow> None
      | c # cs \<Rightarrow>
          if 0 < limit \<and> limit < length (filter (\<lambda>d. digit_of d \<noteq> None) (c # cs)) then None
          else if c = CHR ''-'' then map_option (\<lambda>n. - int n) (py_digits 0 False cs)
          else if c = CHR ''+'' then map_option int (py_digits 0 False cs)
          else map_option int (py_digits 0 False (c # cs)))"

text \<open>Decimal output: \<^verbatim>\<open>str(n)\<close>, and \<^verbatim>\<open>'%0wd' % n\<close> for a natural number.\<close>

definition digit_char :: "nat \<Rightarrow> char" where
  "digit_char d = char_of (48 + d mod 10)"

fun dec :: "nat \<Rightarrow> string" where
  "dec n = (if n < 10 then [digit_char n] else dec (n div 10) @ [digit_char (n mod 10)])"

declare dec.simps [simp del]

definition str_int :: "int \<Rightarrow> string" where
  "str_int i = (if i < 0 then CHR ''-'' # dec (nat (- i)) else dec (nat i))"

definition zfill :: "nat \<Rightarrow> nat \<Rightarrow> string" where
  "zfill w n = replicate (w - length (dec n)) CHR ''0'' @ dec n"


text \<open>\<^verbatim>\<open>s.replace(old, new)\<close>: every occurrence, from the left, without overlap.\<close>

function py_replace :: "string \<Rightarrow> string \<Rightarrow> string \<Rightarrow> string" where
  "py_replace s [] new = new @ concat (map (\<lambda>c. c # new) s)"
| "py_replace [] (a # old) new = []"
| "py_replace (c # cs) (a # old) new =
     (if take (Suc (length old)) (c # cs) = a # old
      then new @ py_replace (drop (length old) cs) (a # old) new
      else c # py_replace cs (a # old) new)"
  by pat_completeness auto
termination
  by (relation "measure (\<lambda>(s, old, new). length s)") auto

subsection \<open>Dates and times (the \<^verbatim>\<open>datetime\<close> module)\<close>

definition datetime_min :: datetime where
  "datetime_min = - 62135596800000000"

definition datetime_max :: datetime where
  "datetime_max = 253402300799999999"

text \<open>
  The proleptic Gregorian date (year, month, day) of a day number counted from
  1970-01-01, by whole 400-year cycles that begin on a first of March.
\<close>

definition civil_from_days :: "int \<Rightarrow> int \<times> int \<times> int" where
  "civil_from_days z0 =
     (let z = z0 + 719468;
          era = z div 146097;
          doe = z mod 146097;
          yoe = (doe - doe div 1460 + doe div 36524 - doe div 146096) div 365;
          doy = doe - (365 * yoe + yoe div 4 - yoe div 100);
          mp = (5 * doy + 2) div 153;
          d = doy - (153 * mp + 2) div 5 + 1;
          m = (if mp < 10 then mp + 3 else mp - 9);
          y = yoe + era * 400
      in (if m \<le> 2 then y + 1 else y, m, d))"

text \<open>
  \<^verbatim>\<open>dt.isoformat(timespec='milliseconds')\<close> of an aware UTC datetime: the microseconds are
  cut to milliseconds, and the offset is printed as \<^verbatim>\<open>+00:00\<close>. (The session with the
  store is taken to run in UTC, so that a timestamp read back carries this offset.)
\<close>

definition isoformat_milliseconds :: "datetime \<Rightarrow> string" where
  "isoformat_milliseconds dt =
     (let days = dt div 86400000000;
          us = dt mod 86400000000;
          (y, m, d) = civil_from_days days
      in zfill 4 (nat y) @ ''-'' @ zfill 2 (nat m) @ ''-'' @ zfill 2 (nat d) @ ''T''
         @ zfill 2 (nat (us div 3600000000)) @ '':''
         @ zfill 2 (nat (us div 60000000 mod 60)) @ '':''
         @ zfill 2 (nat (us div 1000000 mod 60)) @ ''.''
         @ zfill 3 (nat (us mod 1000000 div 1000)) @ ''+00:00'')"

text \<open>
  \<^verbatim>\<open>datetime.fromtimestamp(n / 1000, tz=timezone.utc)\<close> for an integer \<open>n\<close> of
  milliseconds, on CPython with a 64-bit \<^verbatim>\<open>time_t\<close>. The float arithmetic is the
  argument \<open>float_us\<close>: \<open>float_us n\<close> is the instant, in microseconds, that the conversion
  reads off the float nearest to \<open>n / 1000\<close>; it is \<open>n * 1000\<close> where that arithmetic is
  exact. In turn:
  \<^item> no float holds the quotient: the division raises \<^verbatim>\<open>OverflowError\<close>;
  \<^item> the seconds do not fit \<^verbatim>\<open>time_t\<close>: \<^verbatim>\<open>OverflowError\<close>;
  \<^item> the year does not fit the C library's \<^verbatim>\<open>int\<close> field (years since 1900):
    \<^verbatim>\<open>OSError\<close>;
  \<^item> the year is not one of 1 to 9999: \<^verbatim>\<open>ValueError\<close>.
\<close>

definition fromtimestamp_ms :: "(int \<Rightarrow> int) \<Rightarrow> int \<Rightarrow> py_exception + datetime" where
  "fromtimestamp_ms float_us n =
     (if (2 ^ 1024 - 2 ^ 970) * 1000 \<le> \<bar>n\<bar> then
        Inl (OverflowError ''integer division result too large for a float'')
      else
        (let t = float_us n;
             year = fst (civil_from_days (t div 86400000000))
         in if t < - (2 ^ 63) * 1000000 \<or> 2 ^ 63 * 1000000 < t then
              Inl (OverflowError ''timestamp out of range for platform time_t'')
            else if year - 1900 < - (2 ^ 31) \<or> 2 ^ 31 - 1 < year - 1900 then
              Inl (OSError ''[Errno 75] Value too large for defined data type'')
            else if t < datetime_min \<or> datetime_max < t then
              Inl (ValueError ''year is out of range'')
            else Inr t))"

text \<open>
  \<^verbatim>\<open>timedelta(seconds=s)\<close> holds at most 999999999 days in either direction, and
  \<^verbatim>\<open>datetime + timedelta\<close> must stay a datetime; both raise \<^verbatim>\<open>OverflowError\<close> otherwise.
  A timedelta is its number of microseconds.
\<close>

definition timedelta_seconds :: "int \<Rightarrow> py_exception + int" where
  "timedelta_seconds s =
     (if s div 86400 < - 999999999 \<or> 999999999 < s div 86400 then
        Inl (OverflowError ''days must have magnitude <= 999999999'')
      else Inr (s * 1000000))"

definition datetime_add :: "datetime \<Rightarrow> int \<Rightarrow> py_exception + datetime" where
  "datetime_add dt delta =
     (if dt + delta < datetime_min \<or> datetime_max < dt + delta then
        Inl (OverflowError ''date value out of range'')
      else Inr (dt + delta))"

subsection \<open>Requests and their surroundings\<close>

record Request =
  headers :: "string \<rightharpoonup> string"
  base_url :: string

record ctx =
  environ :: "string \<rightharpoonup> string"
  wall_clock :: datetime
  token_urlsafe :: string
  int_max_str_digits :: nat
  float_us :: "int \<Rightarrow> int"

subsection \<open>Utility functions (utils.py)\<close>

definition generate_paste_id :: "ctx \<Rightarrow> string" where
  "generate_paste_id c = token_urlsafe c"

text \<open>
  The \<^verbatim>\<open>except (ValueError, OSError)\<close> clause covers both the parse and the conversion;
  any other exception leaves the function.
\<close>

definition get_current_time :: "ctx \<Rightarrow> Request \<Rightarrow> py_exception + datetime" where
  "get_current_time c request =
     (let test_mode = (environ c ''TEST_MODE'' = Some ''1'') in
      if test_mode then
        (case headers request ''x-test-now-ms'' of
           None \<Rightarrow> Inr (wall_clock c)
         | Some test_time_ms \<Rightarrow>
             if test_time_ms \<noteq> [] then
               (case py_int (int_max_str_digits c) test_time_ms of
                  None \<Rightarrow> Inr (wall_clock c)
                | Some n \<Rightarrow>
                    (case fromtimestamp_ms (float_us c) n of
                       Inr t \<Rightarrow> Inr t
                     | Inl (ValueError msg) \<Rightarrow> Inr (wall_clock c)
                     | Inl (OSError msg) \<Rightarrow> Inr (wall_clock c)
                     | Inl e \<Rightarrow> Inl e))
             else Inr (wall_clock c))
      else Inr (wall_clock c))"

definition calculate_expiry_time :: "datetime \<Rightarrow> int \<Rightarrow> py_exception + datetime" where
  "calculate_expiry_time created ttl =
     (case timedelta_seconds ttl of
        Inl e \<Rightarrow> Inl e
      | Inr delta \<Rightarrow> datetime_add created delta)"

definition format_datetime_iso :: "datetime \<Rightarrow> string" where
  "format_datetime_iso dt =
     (let iso_string = isoformat_milliseconds dt
      in py_replace iso_string ''+00:00'' ''Z'')"

definition get_base_url :: "Request \<Rightarrow> string" where
  "get_base_url request = py_rstrip CHR ''/'' (base_url request)"

definition build_paste_url :: "Request \<Rightarrow> string \<Rightarrow> string" where
  "build_paste_url request pid = get_base_url request @ ''/p/'' @ pid"

subsection \<open>Request validation (schemas.py)\<close>

text \<open>
  The body of a creation request, after pydantic has read the JSON types. The fields
  carry the suffix \<open>_in\<close> to keep them apart from the columns of \<open>Paste\<close>.
\<close>

record PasteCreate =
  content_in :: string
  ttl_seconds_in :: "int option"
  max_views_in :: "int option"

definition content_not_empty :: "string \<Rightarrow> string + string" where
  "content_not_empty v =
     (if v = [] \<or> py_strip v = [] then Inl ''content must be a non-empty string''
      else Inr v)"

definition ttl_positive :: "int option \<Rightarrow> string + int option" where
  "ttl_positive v =
     (case v of
        None \<Rightarrow> Inr v
      | Some n \<Rightarrow> if n < 1 then Inl ''ttl_seconds must be >= 1'' else Inr v)"

definition max_views_positive :: "int option \<Rightarrow> string + int option" where
  "max_views_positive v =
     (case v of
        None \<Rightarrow> Inr v
      | Some n \<Rightarrow> if n < 1 then Inl ''max_views must be >= 1'' else Inr v)"

text \<open>pydantic runs the validator of every field and collects the messages.\<close>

definition validation_errors :: "PasteCreate \<Rightarrow> string list" where
  "validation_errors body =
     (case content_not_empty (content_in body) of Inl msg \<Rightarrow> [msg] | Inr v \<Rightarrow> [])
     @ (case ttl_positive (ttl_seconds_in body) of Inl msg \<Rightarrow> [msg] | Inr v \<Rightarrow> [])
     @ (case max_views_positive (max_views_in body) of Inl msg \<Rightarrow> [msg] | Inr v \<Rightarrow> [])"

subsection \<open>Responses\<close>

datatype json =
  JNull | JBool bool | JInt int | JStr string | JArr "json list" | JObj "(string \<times> json) list"

datatype response =
  JSONResponse json nat
| HTMLResponse string nat
| TemplateResponse string "(string \<times> string) list"

fun status_code :: "response \<Rightarrow> nat" where
  "status_code (JSONResponse body code) = code"
| "status_code (HTMLResponse body code) = code"
| "status_code (TemplateResponse name context) = 200"

fun json_field :: "string \<Rightarrow> response \<Rightarrow> json option" where
  "json_field k (JSONResponse (JObj kvs) code) = map_of kvs k"
| "json_field k r = None"

subsection \<open>The handlers (main.py)\<close>

text \<open>
  The columns \<^verbatim>\<open>ttl_seconds\<close>, \<^verbatim>\<open>max_views\<close> and \<^verbatim>\<open>current_views\<close> are 32-bit integers.
\<close>

definition fits_integer :: "int \<Rightarrow> bool" where
  "fits_integer v = (- (2 ^ 31) \<le> v \<and> v \<le> 2 ^ 31 - 1)"

text \<open>
  \<^verbatim>\<open>db.add(new_paste); db.commit()\<close>. The driver refuses a string with a NUL character
  before anything is sent (\<^verbatim>\<open>ValueError\<close>); the server refuses an integer out of the
  range of its column or an \<^verbatim>\<open>id\<close> longer than the 50 characters of its column
  (\<^verbatim>\<open>DataError\<close>), and a primary key already present (\<^verbatim>\<open>IntegrityError\<close>).
\<close>

definition insert_paste :: "Paste \<Rightarrow> db \<Rightarrow> py_exception + db" where
  "insert_paste new_paste db =
     (if CHR 0x00 \<in> set (paste_id new_paste) \<or> CHR 0x00 \<in> set (content new_paste) then
        Inl (ValueError ''A string literal cannot contain NUL (0x00) characters.'')
      else if \<not> (case ttl_seconds new_paste of None \<Rightarrow> True | Some v \<Rightarrow> fits_integer v)
              \<or> \<not> (case max_views new_paste of None \<Rightarrow> True | Some v \<Rightarrow> fits_integer v)
              \<or> \<not> fits_integer (current_views new_paste)
              \<or> 50 < length (paste_id new_paste) then
        Inl (DataError ''integer out of range'')
      else
        (case db (paste_id new_paste) of
           Some row \<Rightarrow> Inl (IntegrityError ''duplicate key'')
         | None \<Rightarrow> Inr (db(paste_id new_paste \<mapsto> new_paste))))"

text \<open>\<^verbatim>\<open>POST /api/pastes\<close>, the body of the handler. Its two \<^verbatim>\<open>except\<close> clauses:\<close>

fun create_paste_except :: "py_exception \<Rightarrow> response" where
  "create_paste_except (ValueError msg) = JSONResponse (JObj [(''error'', JStr msg)]) 400"
| "create_paste_except e = JSONResponse (JObj [(''error'', JStr ''Internal server error'')]) 500"

definition create_paste :: "ctx \<Rightarrow> PasteCreate \<Rightarrow> Request \<Rightarrow> db \<Rightarrow> response \<times> db" where
  "create_paste c paste_data request db =
     (let pid = generate_paste_id c in
      case get_current_time c request of
        Inl e \<Rightarrow> (create_paste_except e, db)
      | Inr created \<Rightarrow>
          (case (case ttl_seconds_in paste_data of
                   None \<Rightarrow> Inr None
                 | Some ttl \<Rightarrow>
                     if ttl \<noteq> 0 then
                       (case calculate_expiry_time created ttl of
                          Inl e \<Rightarrow> Inl e
                        | Inr t \<Rightarrow> Inr (Some t))
                     else Inr None) of
             Inl e \<Rightarrow> (create_paste_except e, db)
           | Inr expires \<Rightarrow>
               (let new_paste =
                      \<lparr>paste_id = pid,
                       content = content_in paste_data,
                       ttl_seconds = ttl_seconds_in paste_data,
                       max_views = max_views_in paste_data,
                       current_views = 0,
                       created_at = created,
                       expires_at = expires,
                       is_active = True\<rparr>
                in case insert_paste new_paste db of
                     Inl e \<Rightarrow> (create_paste_except e, db)
                   | Inr db' \<Rightarrow>
                       (JSONResponse
                          (JObj [(''id'', JStr pid),
                                 (''url'', JStr (build_paste_url request pid))]) 200,
                        db'))))"

text \<open>
  \<^verbatim>\<open>GET /api/pastes/{paste_id}\<close>: the handler from the lookup on, at a reference time.
  When the new count does not fit its column, \<^verbatim>\<open>db.commit()\<close> raises, the handler's
  \<^verbatim>\<open>except\<close> clause answers 500, and nothing is stored.
\<close>

definition fetch_paste_at :: "ctx \<Rightarrow> datetime \<Rightarrow> string \<Rightarrow> db \<Rightarrow> response \<times> db" where
  "fetch_paste_at c current_time pid db =
     (case db pid of
        None \<Rightarrow> (JSONResponse (JObj [(''error'', JStr ''Paste not found'')]) 404, db)
      | Some paste \<Rightarrow>
          if \<not> is_available (wall_clock c) paste (Some current_time) then
            (let paste = paste\<lparr>is_active := False\<rparr>;
                 error_msg =
                   (if is_expired (wall_clock c) paste (Some current_time) then ''Paste has expired''
                    else if is_view_limit_reached paste then ''View limit exceeded''
                    else ''Paste not available'')
             in (JSONResponse (JObj [(''error'', JStr error_msg)]) 404, db(pid \<mapsto> paste)))
          else
            (let paste = paste\<lparr>current_views := current_views paste + 1\<rparr>;
                 paste = (if is_view_limit_reached paste then paste\<lparr>is_active := False\<rparr>
                          else paste);
                 response_data =
                   JObj [(''content'', JStr (content paste)),
                         (''remaining_views'',
                            (case get_remaining_views paste of None \<Rightarrow> JNull | Some r \<Rightarrow> JInt r)),
                         (''expires_at'',
                            (case expires_at paste of
                               None \<Rightarrow> JNull
                             | Some e \<Rightarrow> JStr (format_datetime_iso e)))]
             in if \<not> fits_integer (current_views paste) then
                  (JSONResponse (JObj [(''error'', JStr ''Internal server error'')]) 500, db)
                else (JSONResponse response_data 200, db(pid \<mapsto> paste))))"

definition fetch_paste :: "ctx \<Rightarrow> string \<Rightarrow> Request \<Rightarrow> db \<Rightarrow> response \<times> db" where
  "fetch_paste c pid request db =
     (case get_current_time c request of
        Inl e \<Rightarrow> (JSONResponse (JObj [(''error'', JStr ''Internal server error'')]) 500, db)
      | Inr current_time \<Rightarrow> fetch_paste_at c current_time pid db)"

text \<open>\<^verbatim>\<open>GET /p/{paste_id}\<close>, the page of a paste.\<close>

definition view_paste_at :: "ctx \<Rightarrow> datetime \<Rightarrow> string \<Rightarrow> db \<Rightarrow> response \<times> db" where
  "view_paste_at c current_time pid db =
     (case db pid of
        None \<Rightarrow> (HTMLResponse ''<html><body><h1>404 - Paste Not Found</h1></body></html>'' 404, db)
      | Some paste \<Rightarrow>
          if \<not> is_available (wall_clock c) paste (Some current_time) then
            (let paste = paste\<lparr>is_active := False\<rparr>;
                 error_msg =
                   (if is_expired (wall_clock c) paste (Some current_time) then ''Paste Has Expired''
                    else if is_view_limit_reached paste then ''View Limit Exceeded''
                    else ''Paste Not Available'')
             in (HTMLResponse (''<html><body><h1>404 - '' @ error_msg @ ''</h1></body></html>'') 404,
                 db(pid \<mapsto> paste)))
          else
            (TemplateResponse ''view_paste.html''
               [(''paste_id'', pid), (''content'', content paste)], db))"

definition view_paste :: "ctx \<Rightarrow> string \<Rightarrow> Request \<Rightarrow> db \<Rightarrow> response \<times> db" where
  "view_paste c pid request db =
     (case get_current_time c request of
        Inl e \<Rightarrow>
          (HTMLResponse (''<html><body><h1>500 - Internal Server Error</h1><p>Error: ''
                         @ str_exc e @ ''</p></body></html>'') 500, db)
      | Inr current_time \<Rightarrow> view_paste_at c current_time pid db)"

subsection \<open>Exception handlers of the application\<close>

text \<open>
  FastAPI validates the body before it calls the handler, and raises
  \<^verbatim>\<open>RequestValidationError\<close> when a validator refuses it. Starlette then picks the
  exception handler: one registered under a status code serves an \<^verbatim>\<open>HTTPException\<close>
  of that status only (the one under 500 is set aside for errors that no handler
  takes); every other exception is looked up by its class. Without a
  registration, FastAPI's own handlers answer: for \<^verbatim>\<open>RequestValidationError\<close>, status
  422 with the list of errors under \<^verbatim>\<open>detail\<close> (each entry is shortened to its message
  here).
\<close>

datatype app_exception = RequestValidationError "string list" | HTTPException nat string

datatype handler_key = StatusCode nat | RequestValidationErrorClass | HTTPExceptionClass

definition validation_exception_handler :: "app_exception \<Rightarrow> response" where
  "validation_exception_handler exc = JSONResponse (JObj [(''error'', JStr ''Invalid input'')]) 400"

definition internal_error_handler :: "app_exception \<Rightarrow> response" where
  "internal_error_handler exc =
     JSONResponse (JObj [(''error'', JStr ''Internal server error'')]) 500"

text \<open>The registrations: \<^verbatim>\<open>@app.exception_handler(422)\<close> and \<^verbatim>\<open>@app.exception_handler(500)\<close>.\<close>

definition exception_handlers :: "(handler_key \<times> (app_exception \<Rightarrow> response)) list" where
  "exception_handlers =
     [(StatusCode 422, validation_exception_handler),
      (StatusCode 500, internal_error_handler)]"

definition handle_exception :: "app_exception \<Rightarrow> response" where
  "handle_exception exc =
     (case exc of
        HTTPException code detail \<Rightarrow>
          (case map_of (filter (\<lambda>(key, h). key \<noteq> StatusCode 500) exception_handlers)
                  (StatusCode code) of
             Some h \<Rightarrow> h exc
           | None \<Rightarrow>
               (case map_of exception_handlers HTTPExceptionClass of
                  Some h \<Rightarrow> h exc
                | None \<Rightarrow> JSONResponse (JObj [(''detail'', JStr detail)]) code))
      | RequestValidationError errors \<Rightarrow>
          (case map_of exception_handlers RequestValidationErrorClass of
             Some h \<Rightarrow> h exc
           | None \<Rightarrow> JSONResponse (JObj [(''detail'', JArr (map JStr errors))]) 422))"

text \<open>\<^verbatim>\<open>POST /api/pastes\<close>, from the body as received.\<close>

definition post_pastes :: "ctx \<Rightarrow> Request \<Rightarrow> PasteCreate \<Rightarrow> db \<Rightarrow> response \<times> db" where
  "post_pastes c request body db =
     (case validation_errors body of
        [] \<Rightarrow> create_paste c body request db
      | e # es \<Rightarrow> (handle_exception (RequestValidationError (e # es)), db))"

subsection \<open>Sequences of requests\<close>

datatype op =
  Create ctx Request PasteCreate
| Fetch ctx string Request
| View ctx string Request

fun step :: "op \<Rightarrow> db \<Rightarrow> response \<times> db" where
  "step (Create c request body) db = post_pastes c request body db"
| "step (Fetch c pid request) db = fetch_paste c pid request db"
| "step (View c pid request) db = view_paste c pid request db"

fun run :: "op list \<Rightarrow> db \<Rightarrow> db" where
  "run [] db = db"
| "run (x # xs) db = run xs (snd (step x db))"

text \<open>
  A fetch of the paste \<open>pid\<close> whose reference time is defined (the request does not end
  in the handler's \<^verbatim>\<open>except\<close> clause).
\<close>

definition fetch_of :: "string \<Rightarrow> op \<Rightarrow> bool" where
  "fetch_of pid x =
     (case x of
        Fetch c q request \<Rightarrow>
          q = pid \<and> (case get_current_time c request of Inl e \<Rightarrow> False | Inr t \<Rightarrow> True)
      | Create c request body \<Rightarrow> False
      | View c q request \<Rightarrow> False)"

subsection \<open>Example values\<close>

text \<open>
  A production process (no \<^verbatim>\<open>TEST_MODE\<close>) at 2026-01-31T12:00:00Z, the same process in
  test mode, two requests, and the paste of the round trip of the specification.
\<close>

definition ctx_prod :: ctx where
  "ctx_prod = \<lparr>environ = Map.empty, wall_clock = 1769860800000000,
               token_urlsafe = ''x4K_9mPq'', int_max_str_digits = 4300,
               float_us = (\<lambda>n. n * 1000)\<rparr>"

definition ctx_test :: ctx where
  "ctx_test = ctx_prod\<lparr>environ := [''TEST_MODE'' \<mapsto> ''1'']\<rparr>"

definition req_plain :: Request where
  "req_plain = \<lparr>headers = Map.empty, base_url = ''https://pastebin-lite.onrender.com/''\<rparr>"

definition req_at :: "string \<Rightarrow> Request" where
  "req_at ms = req_plain\<lparr>headers := [''x-test-now-ms'' \<mapsto> ms]\<rparr>"

definition body_hello :: PasteCreate where
  "body_hello = \<lparr>content_in = ''Hello, World!'', ttl_seconds_in = Some 3600,
                 max_views_in = Some 10\<rparr>"

definition paste_hello :: Paste where
  "paste_hello = \<lparr>paste_id = ''x4K_9mPq'', content = ''Hello, World!'',
                  ttl_seconds = Some 3600, max_views = Some 10, current_views = 0,
                  created_at = 1769860800000000, expires_at = Some 1769864400000000,
                  is_active = True\<rparr>"

definition body_once :: PasteCreate where
  "body_once = \<lparr>content_in = ''x'', ttl_seconds_in = None, max_views_in = Some 1\<rparr>"

section \<open>Properties\<close>

subsection \<open>The evaluator and the two read paths\<close>

lemma is_expired_Some: "is_expired wall p (Some now) = (\<exists>e. expires_at p = Some e \<and> e \<le> now)"
  by (simp add: is_expired_def split: option.splits)

lemma is_expired_is_active_update [simp]:
  "is_expired wall (p\<lparr>is_active := b\<rparr>) t = is_expired wall p t"
  by (simp add: is_expired_def)

lemma is_view_limit_reached_is_active_update [simp]:
  "is_view_limit_reached (p\<lparr>is_active := b\<rparr>) = is_view_limit_reached p"
  by (simp add: is_view_limit_reached_def split: option.splits)

lemma fetch_paste_at_missing:
  "db pid = None \<Longrightarrow>
   fetch_paste_at c t pid db = (JSONResponse (JObj [(''error'', JStr ''Paste not found'')]) 404, db)"
  by (simp add: fetch_paste_at_def)

lemma fetch_paste_at_unavailable:
  "db pid = Some p \<Longrightarrow> \<not> is_available (wall_clock c) p (Some t) \<Longrightarrow>
   fetch_paste_at c t pid db =
     (JSONResponse (JObj [(''error'', JStr
        (if is_expired (wall_clock c) p (Some t) then ''Paste has expired''
         else if is_view_limit_reached p then ''View limit exceeded''
         else ''Paste not available''))]) 404,
      db(pid \<mapsto> p\<lparr>is_active := False\<rparr>))"
  by (simp add: fetch_paste_at_def Let_def)

lemma fetch_paste_at_available:
  "db pid = Some p \<Longrightarrow> is_available (wall_clock c) p (Some t) \<Longrightarrow>
   fits_integer (current_views p + 1) \<Longrightarrow>
   fetch_paste_at c t pid db =
     (JSONResponse (JObj [(''content'', JStr (content p)),
         (''remaining_views'',
            (case max_views p of None \<Rightarrow> JNull | Some m \<Rightarrow> JInt (m - current_views p - 1))),
         (''expires_at'',
            (case expires_at p of None \<Rightarrow> JNull | Some e \<Rightarrow> JStr (format_datetime_iso e)))]) 200,
      db(pid \<mapsto> p\<lparr>current_views := current_views p + 1,
                     is_active := (case max_views p of None \<Rightarrow> True | Some m \<Rightarrow> current_views p + 1 < m)\<rparr>))"
  by (auto simp add: fetch_paste_at_def Let_def is_available_def is_view_limit_reached_def
      get_remaining_views_def split: option.splits if_splits)

lemma fetch_paste_at_overflow:
  "db pid = Some p \<Longrightarrow> is_available (wall_clock c) p (Some t) \<Longrightarrow>
   \<not> fits_integer (current_views p + 1) \<Longrightarrow>
   fetch_paste_at c t pid db =
     (JSONResponse (JObj [(''error'', JStr ''Internal server error'')]) 500, db)"
  by (auto simp add: fetch_paste_at_def Let_def split: option.splits if_splits)

lemma fetch_paste_resolved:
  "get_current_time c r = Inr t \<Longrightarrow> fetch_paste c pid r db = fetch_paste_at c t pid db"
  by (simp add: fetch_paste_def)

lemma fetch_paste_unresolved:
  "get_current_time c r = Inl e \<Longrightarrow>
   fetch_paste c pid r db =
     (JSONResponse (JObj [(''error'', JStr ''Internal server error'')]) 500, db)"
  by (simp add: fetch_paste_def)

lemma view_paste_at_views:
  "map_option current_views (snd (view_paste_at c t pid db) q) = map_option current_views (db q)"
  by (simp add: view_paste_at_def Let_def split: option.splits)

subsection \<open>Creation\<close>

lemma status_create_paste_except: "status_code (create_paste_except e) \<noteq> 200"
  by (cases e) simp_all

lemma validation_errors_Nil:
  "validation_errors body = [] \<Longrightarrow>
   (\<forall>n. ttl_seconds_in body = Some n \<longrightarrow> 1 \<le> n) \<and> (\<forall>n. max_views_in body = Some n \<longrightarrow> 1 \<le> n)
   \<and> content_in body \<noteq> [] \<and> py_strip (content_in body) \<noteq> []"
  by (auto simp add: validation_errors_def ttl_positive_def max_views_positive_def
      content_not_empty_def split: option.splits if_splits sum.splits)

lemma calculate_expiry_time_Inr:
  "calculate_expiry_time created ttl = Inr t \<Longrightarrow> t = created + ttl * 1000000"
  by (auto simp add: calculate_expiry_time_def timedelta_seconds_def datetime_add_def
      split: sum.splits if_splits)

lemma insert_paste_Inr:
  "insert_paste q db = Inr db' \<Longrightarrow>
   db (paste_id q) = None \<and> db' = db(paste_id q \<mapsto> q)
   \<and> (case max_views q of None \<Rightarrow> True | Some v \<Rightarrow> fits_integer v)"
  by (auto simp add: insert_paste_def split: if_splits option.splits)

lemma post_pastes_valid:
  assumes "post_pastes c r body db0 = (resp, db)" and "status_code resp = 200"
  shows "validation_errors body = []" and "create_paste c body r db0 = (resp, db)"
proof -
  show v: "validation_errors body = []"
    using assms
    by (cases "validation_errors body")
       (auto simp add: post_pastes_def handle_exception_def exception_handlers_def)
  then show "create_paste c body r db0 = (resp, db)"
    using assms(1) by (simp add: post_pastes_def)
qed

lemma post_pastes_200:
  assumes "post_pastes c r body db0 = (resp, db)" and "status_code resp = 200"
  shows "\<exists>created. get_current_time c r = Inr created \<and> db0 (token_urlsafe c) = None
           \<and> validation_errors body = []
           \<and> db = db0(token_urlsafe c \<mapsto>
                 \<lparr>paste_id = token_urlsafe c, content = content_in body,
                  ttl_seconds = ttl_seconds_in body, max_views = max_views_in body,
                  current_views = 0, created_at = created,
                  expires_at = map_option (\<lambda>T. created + T * 1000000) (ttl_seconds_in body),
                  is_active = True\<rparr>)"
proof -
  note v = post_pastes_valid(1) [OF assms] and cp = post_pastes_valid(2) [OF assms]
  have ttl: "\<And>n. ttl_seconds_in body = Some n \<Longrightarrow> n \<noteq> 0"
    using validation_errors_Nil [OF v] by auto
  show ?thesis
    using cp assms(2) v ttl status_create_paste_except
    by (auto simp add: create_paste_def generate_paste_id_def Let_def
        dest!: calculate_expiry_time_Inr insert_paste_Inr split: sum.splits option.splits if_splits)
qed

lemma post_pastes_200_max_views:
  assumes "post_pastes c r body db0 = (resp, db)" and "status_code resp = 200"
    and "max_views_in body = Some N"
  shows "1 \<le> N \<and> fits_integer N"
proof -
  note v = post_pastes_valid(1) [OF assms(1,2)] and cp = post_pastes_valid(2) [OF assms(1,2)]
  have "1 \<le> N" using validation_errors_Nil [OF v] assms(3) by simp
  moreover have "fits_integer N"
    using cp assms(2,3) status_create_paste_except
    by (auto simp add: create_paste_def Let_def dest!: insert_paste_Inr
        split: sum.splits option.splits if_splits)
  ultimately show ?thesis by simp
qed

subsection \<open>The example values, evaluated\<close>

lemma get_current_time_prod: "get_current_time (ctx_prod\<lparr>wall_clock := t\<rparr>) r = Inr t"
  by (simp add: get_current_time_def ctx_prod_def)

lemma get_current_time_prod0: "get_current_time ctx_prod r = Inr 1769860800000000"
  by (simp add: get_current_time_def ctx_prod_def)

lemma validation_errors_hello: "validation_errors body_hello = []"
  by (simp add: validation_errors_def body_hello_def content_not_empty_def py_strip_def
      py_isspace_def ttl_positive_def max_views_positive_def)

lemma post_pastes_hello:
  "post_pastes ctx_prod req_plain body_hello Map.empty =
     (JSONResponse (JObj [(''id'', JStr ''x4K_9mPq''),
        (''url'', JStr ''https://pastebin-lite.onrender.com/p/x4K_9mPq'')]) 200,
      [''x4K_9mPq'' \<mapsto> paste_hello])"
  unfolding post_pastes_def validation_errors_hello create_paste_def get_current_time_prod0
  by (simp add: generate_paste_id_def calculate_expiry_time_def timedelta_seconds_def
      datetime_add_def datetime_min_def datetime_max_def build_paste_url_def get_base_url_def
      py_rstrip_def paste_hello_def ctx_prod_def body_hello_def req_plain_def Let_def
      insert_paste_def fits_integer_def)

lemma validation_errors_once: "validation_errors body_once = []"
  by (simp add: validation_errors_def body_once_def content_not_empty_def py_strip_def
      py_isspace_def ttl_positive_def max_views_positive_def)

lemma post_pastes_once:
  "post_pastes ctx_prod req_plain body_once Map.empty =
     (JSONResponse (JObj [(''id'', JStr ''x4K_9mPq''),
        (''url'', JStr ''https://pastebin-lite.onrender.com/p/x4K_9mPq'')]) 200,
      [''x4K_9mPq'' \<mapsto>
         \<lparr>paste_id = ''x4K_9mPq'', content = ''x'', ttl_seconds = None, max_views = Some 1,
          current_views = 0, created_at = 1769860800000000, expires_at = None,
          is_active = True\<rparr>])"
  unfolding post_pastes_def validation_errors_once create_paste_def get_current_time_prod0
  by (simp add: generate_paste_id_def build_paste_url_def get_base_url_def
      py_rstrip_def ctx_prod_def body_once_def req_plain_def Let_def
      insert_paste_def fits_integer_def)

lemma paste_hello_fields:
  "\<not> is_view_limit_reached paste_hello" "is_active paste_hello"
  "expires_at paste_hello = Some 1769864400000000" "content paste_hello = ''Hello, World!''"
  "max_views paste_hello = Some 10" "current_views paste_hello = 0"
  by (simp_all add: is_view_limit_reached_def paste_hello_def)

lemma body_hello_fields:
  "ttl_seconds_in body_hello = Some 3600" "content_in body_hello = ''Hello, World!''"
  "max_views_in body_hello = Some 10"
  by (simp_all add: body_hello_def)

lemma generate_paste_id_prod: "generate_paste_id ctx_prod = ''x4K_9mPq''"
  by (simp add: generate_paste_id_def ctx_prod_def)

lemma fetch_paste_hello:
  "fetch_paste ctx_prod ''x4K_9mPq'' req_plain [''x4K_9mPq'' \<mapsto> paste_hello] =
    (JSONResponse (JObj [(''content'', JStr ''Hello, World!''), (''remaining_views'', JInt 9),
        (''expires_at'', JStr (format_datetime_iso 1769864400000000))]) 200,
     [''x4K_9mPq'' \<mapsto> paste_hello\<lparr>current_views := 1\<rparr>])"
proof -
  have av: "is_available (wall_clock ctx_prod) paste_hello (Some 1769860800000000)"
    by (simp add: is_available_def is_expired_Some paste_hello_fields)
  have eq: "paste_hello\<lparr>current_views := 1, is_active := True\<rparr> = paste_hello\<lparr>current_views := 1\<rparr>"
    by (simp add: paste_hello_def)
  show ?thesis
    using fetch_paste_at_available [of "[''x4K_9mPq'' \<mapsto> paste_hello]" "''x4K_9mPq''" paste_hello
        ctx_prod 1769860800000000] av
    by (simp add: fetch_paste_resolved [OF get_current_time_prod0] paste_hello_fields eq
        fits_integer_def)
qed

lemma fetch_paste_hello_again:
  "fetch_paste ctx_prod ''x4K_9mPq'' req_plain [''x4K_9mPq'' \<mapsto> paste_hello\<lparr>current_views := 1\<rparr>] =
    (JSONResponse (JObj [(''content'', JStr ''Hello, World!''), (''remaining_views'', JInt 8),
        (''expires_at'', JStr (format_datetime_iso 1769864400000000))]) 200,
     [''x4K_9mPq'' \<mapsto> paste_hello\<lparr>current_views := 2\<rparr>])"
proof -
  let ?p = "paste_hello\<lparr>current_views := 1\<rparr>"
  have av: "is_available (wall_clock ctx_prod) ?p (Some 1769860800000000)"
    by (simp add: is_available_def is_expired_Some is_view_limit_reached_def paste_hello_def)
  have eq: "paste_hello\<lparr>current_views := 2, is_active := True\<rparr> = paste_hello\<lparr>current_views := 2\<rparr>"
    by (simp add: paste_hello_def)
  show ?thesis
    using fetch_paste_at_available [of "[''x4K_9mPq'' \<mapsto> ?p]" "''x4K_9mPq''" ?p
        ctx_prod 1769860800000000] av
    by (simp add: fetch_paste_resolved [OF get_current_time_prod0] paste_hello_fields eq
        fits_integer_def)
qed

lemma fetch_paste_cases:
  assumes "db pid = Some p"
  shows "(\<exists>e. get_current_time c r = Inl e \<and> fetch_paste c pid r db =
            (JSONResponse (JObj [(''error'', JStr ''Internal server error'')]) 500, db))
       \<or> (\<exists>t. get_current_time c r = Inr t \<and> is_available (wall_clock c) p (Some t)
            \<and> \<not> fits_integer (current_views p + 1) \<and> fetch_paste c pid r db =
            (JSONResponse (JObj [(''error'', JStr ''Internal server error'')]) 500, db))
       \<or> (\<exists>t. get_current_time c r = Inr t \<and> \<not> is_available (wall_clock c) p (Some t)
            \<and> status_code (fst (fetch_paste c pid r db)) = 404
            \<and> snd (fetch_paste c pid r db) = db(pid \<mapsto> p\<lparr>is_active := False\<rparr>))
       \<or> (\<exists>t. get_current_time c r = Inr t \<and> is_available (wall_clock c) p (Some t)
            \<and> fits_integer (current_views p + 1)
            \<and> fetch_paste c pid r db = fetch_paste_at c t pid db
            \<and> status_code (fst (fetch_paste c pid r db)) = 200
            \<and> snd (fetch_paste c pid r db) =
                db(pid \<mapsto> p\<lparr>current_views := current_views p + 1,
                     is_active := (case max_views p of None \<Rightarrow> True
                                   | Some m \<Rightarrow> current_views p + 1 < m)\<rparr>))"
proof (cases "get_current_time c r")
  case (Inl e)
  then show ?thesis by (simp add: fetch_paste_unresolved)
next
  case (Inr t)
  show ?thesis
  proof (cases "is_available (wall_clock c) p (Some t)")
    case True
    show ?thesis
    proof (cases "fits_integer (current_views p + 1)")
      case fits: True
      then show ?thesis
        using Inr True assms by (simp add: fetch_paste_resolved fetch_paste_at_available)
    next
      case False
      then show ?thesis
        using Inr True assms by (simp add: fetch_paste_resolved fetch_paste_at_overflow)
    qed
  next
    case False
    then show ?thesis
      using Inr assms by (simp add: fetch_paste_resolved fetch_paste_at_unavailable)
  qed
qed

subsection \<open>Expiry by time\<close>

lemma fetch_paste_ttl:
  assumes "db pid = Some p" and "get_current_time c r = Inr now" and "expires_at p = Some e"
  shows "(e \<le> now \<longrightarrow> status_code (fst (fetch_paste c pid r db)) = 404)
       \<and> (now < e \<and> is_active p \<and> \<not> is_view_limit_reached p
            \<and> fits_integer (current_views p + 1) \<longrightarrow>
            status_code (fst (fetch_paste c pid r db)) = 200
            \<and> json_field ''content'' (fst (fetch_paste c pid r db)) = Some (JStr (content p)))"
proof (intro conjI impI)
  assume "e \<le> now"
  then have "\<not> is_available (wall_clock c) p (Some now)"
    using assms(3) by (simp add: is_available_def is_expired_Some)
  then show "status_code (fst (fetch_paste c pid r db)) = 404"
    using assms by (simp add: fetch_paste_resolved fetch_paste_at_unavailable)
next
  assume a: "now < e \<and> is_active p \<and> \<not> is_view_limit_reached p
            \<and> fits_integer (current_views p + 1)"
  then have av: "is_available (wall_clock c) p (Some now)"
    using assms(3) by (simp add: is_available_def is_expired_Some)
  show "status_code (fst (fetch_paste c pid r db)) = 200"
    using assms av a by (simp add: fetch_paste_resolved fetch_paste_at_available)
  show "json_field ''content'' (fst (fetch_paste c pid r db)) = Some (JStr (content p))"
    using assms av a by (simp add: fetch_paste_resolved fetch_paste_at_available)
qed

text \<open>
  Claim C3. \<open>is_expired\<close> at a reference time \<open>now\<close> holds exactly when \<open>expires_at\<close> is
  present and \<open>now\<close> is at or after it; without \<open>expires_at\<close> a paste never expires by
  time. Hence a fetch of a stored paste at or after its expiry answers 404, and a fetch
  before it, of a paste that is still active and has views left (and whose count the
  column can still hold), answers 200 with the content. A paste created with
  \<open>ttl_seconds = T\<close> at the reference time \<open>created\<close> is stored with the expiry \<open>created\<close>
  plus \<open>T\<close> seconds: its fetch at that instant or later answers 404, and any earlier
  one answers 200 with the content.
\<close>

theorem expiry_is_inclusive:
  "is_expired wall p (Some now) = (\<exists>e. expires_at p = Some e \<and> e \<le> now)
   \<and> (db pid = Some p \<and> get_current_time c r = Inr now \<and> expires_at p = Some e \<longrightarrow>
        (e \<le> now \<longrightarrow> status_code (fst (fetch_paste c pid r db)) = 404)
        \<and> (now < e \<and> is_active p \<and> \<not> is_view_limit_reached p
             \<and> fits_integer (current_views p + 1) \<longrightarrow>
             status_code (fst (fetch_paste c pid r db)) = 200
             \<and> json_field ''content'' (fst (fetch_paste c pid r db)) = Some (JStr (content p))))
   \<and> (post_pastes c0 r0 body db0 = (resp0, db1) \<and> status_code resp0 = 200
        \<and> ttl_seconds_in body = Some T \<and> get_current_time c0 r0 = Inr created
        \<and> get_current_time c r = Inr now \<longrightarrow>
        map_option expires_at (db1 (generate_paste_id c0)) = Some (Some (created + T * 1000000))
        \<and> (created + T * 1000000 \<le> now \<longrightarrow>
             status_code (fst (fetch_paste c (generate_paste_id c0) r db1)) = 404)
        \<and> (now < created + T * 1000000 \<longrightarrow>
             status_code (fst (fetch_paste c (generate_paste_id c0) r db1)) = 200
             \<and> json_field ''content'' (fst (fetch_paste c (generate_paste_id c0) r db1))
                 = Some (JStr (content_in body))))"
proof (intro conjI impI)
  show "is_expired wall p (Some now) = (\<exists>e. expires_at p = Some e \<and> e \<le> now)"
    by (rule is_expired_Some)
next
  assume "db pid = Some p \<and> get_current_time c r = Inr now \<and> expires_at p = Some e"
  then have h: "db pid = Some p" "get_current_time c r = Inr now" "expires_at p = Some e"
    by simp_all
  { assume "e \<le> now"
    then show "status_code (fst (fetch_paste c pid r db)) = 404"
      using fetch_paste_ttl [of db pid p c r now e] h by simp }
  { assume a: "now < e \<and> is_active p \<and> \<not> is_view_limit_reached p
             \<and> fits_integer (current_views p + 1)"
    show "status_code (fst (fetch_paste c pid r db)) = 200"
      using fetch_paste_ttl [of db pid p c r now e] h a by simp
    show "json_field ''content'' (fst (fetch_paste c pid r db)) = Some (JStr (content p))"
      using fetch_paste_ttl [of db pid p c r now e] h a by simp }
next
  assume a: "post_pastes c0 r0 body db0 = (resp0, db1) \<and> status_code resp0 = 200
        \<and> ttl_seconds_in body = Some T \<and> get_current_time c0 r0 = Inr created
        \<and> get_current_time c r = Inr now"
  let ?pid = "generate_paste_id c0"
  let ?p = "\<lparr>paste_id = token_urlsafe c0, content = content_in body,
                  ttl_seconds = ttl_seconds_in body, max_views = max_views_in body,
                  current_views = 0, created_at = created,
                  expires_at = Some (created + T * 1000000),
                  is_active = True\<rparr>"
  from a post_pastes_200 [of c0 r0 body db0 resp0 db1]
  have db1: "db1 ?pid = Some ?p" and v: "validation_errors body = []"
    by (auto simp add: generate_paste_id_def)
  from db1 show "map_option expires_at (db1 ?pid) = Some (Some (created + T * 1000000))"
    by simp
  have nl: "\<not> is_view_limit_reached ?p" "fits_integer (current_views ?p + 1)"
    using validation_errors_Nil [OF v]
    by (auto simp add: is_view_limit_reached_def fits_integer_def split: option.splits)
  from a have now: "get_current_time c r = Inr now" by simp
  have e: "expires_at ?p = Some (created + T * 1000000)" by simp
  have f: "(created + T * 1000000 \<le> now \<longrightarrow> status_code (fst (fetch_paste c ?pid r db1)) = 404)
       \<and> (now < created + T * 1000000 \<and> is_active ?p \<and> \<not> is_view_limit_reached ?p
            \<and> fits_integer (current_views ?p + 1) \<longrightarrow>
            status_code (fst (fetch_paste c ?pid r db1)) = 200
            \<and> json_field ''content'' (fst (fetch_paste c ?pid r db1)) = Some (JStr (content ?p)))"
    using fetch_paste_ttl [of db1 ?pid ?p c r now "created + T * 1000000"] db1 now e by blast
  { assume "created + T * 1000000 \<le> now"
    then show "status_code (fst (fetch_paste c ?pid r db1)) = 404"
      using f by simp }
  { assume b: "now < created + T * 1000000"
    show "status_code (fst (fetch_paste c ?pid r db1)) = 200"
      using f b nl by simp
    show "json_field ''content'' (fst (fetch_paste c ?pid r db1)) = Some (JStr (content_in body))"
      using f b nl by simp }
qed

theorem expiry_is_inclusive_witness:
  "status_code (fst (post_pastes ctx_prod req_plain body_hello Map.empty)) = 200
   \<and> map_option expires_at (snd (post_pastes ctx_prod req_plain body_hello Map.empty) ''x4K_9mPq'')
       = Some (Some (1769860800000000 + 3600 * 1000000))
   \<and> is_expired 0 paste_hello (Some 1769864400000000)
   \<and> \<not> is_expired 0 paste_hello (Some 1769864399999999)
   \<and> status_code (fst (fetch_paste (ctx_prod\<lparr>wall_clock := 1769864400000000\<rparr>) ''x4K_9mPq''
         req_plain (snd (post_pastes ctx_prod req_plain body_hello Map.empty)))) = 404
   \<and> status_code (fst (fetch_paste (ctx_prod\<lparr>wall_clock := 1769864399999999\<rparr>) ''x4K_9mPq''
         req_plain (snd (post_pastes ctx_prod req_plain body_hello Map.empty)))) = 200
   \<and> json_field ''content'' (fst (fetch_paste (ctx_prod\<lparr>wall_clock := 1769864399999999\<rparr>)
         ''x4K_9mPq'' req_plain (snd (post_pastes ctx_prod req_plain body_hello Map.empty))))
       = Some (JStr ''Hello, World!'')"
proof -
  let ?created = "post_pastes ctx_prod req_plain body_hello Map.empty"
  have cr: "?created = (fst ?created, snd ?created)" by simp
  have st: "status_code (fst ?created) = 200" by (simp add: post_pastes_hello)
  have row: "snd ?created ''x4K_9mPq'' = Some paste_hello" by (simp add: post_pastes_hello)
  note late = expiry_is_inclusive [of 0 paste_hello 1769864400000000 "snd ?created"
      "''x4K_9mPq''" "ctx_prod\<lparr>wall_clock := 1769864400000000\<rparr>" req_plain
      1769864400000000 ctx_prod req_plain body_hello Map.empty "fst ?created" "snd ?created"
      3600 1769860800000000]
  note early = expiry_is_inclusive [of 0 paste_hello 1769864399999999 "snd ?created"
      "''x4K_9mPq''" "ctx_prod\<lparr>wall_clock := 1769864399999999\<rparr>" req_plain
      1769864400000000 ctx_prod req_plain body_hello Map.empty "fst ?created" "snd ?created"
      3600 1769860800000000]
  from late early cr st row show ?thesis
    by (simp add: get_current_time_prod get_current_time_prod0 generate_paste_id_prod
        paste_hello_fields body_hello_fields fits_integer_def)
qed

subsection \<open>The page of a paste\<close>

text \<open>
  Claim C9. Rendering the page of a paste (\<^verbatim>\<open>GET /p/{id}\<close>) leaves \<open>current_views\<close> of
  every stored paste as it was, for every table, identifier, request and reference
  time, whatever the page shown (the paste, a 404 variant or the 500 page).
\<close>

theorem page_render_never_counts:
  "map_option current_views (snd (view_paste c pid request db) q) = map_option current_views (db q)"
  by (simp add: view_paste_def view_paste_at_views split: sum.splits)

theorem page_render_never_counts_witness:
  "map_option current_views
     (snd (view_paste (ctx_prod\<lparr>wall_clock := 1769864400000000\<rparr>) ''x4K_9mPq'' req_plain
        [''x4K_9mPq'' \<mapsto> paste_hello]) ''x4K_9mPq'') = Some 0
   \<and> status_code (fst (view_paste (ctx_prod\<lparr>wall_clock := 1769864400000000\<rparr>) ''x4K_9mPq'' req_plain
        [''x4K_9mPq'' \<mapsto> paste_hello])) = 404
   \<and> map_option current_views
     (snd (view_paste ctx_prod ''x4K_9mPq'' req_plain
        [''x4K_9mPq'' \<mapsto> paste_hello]) ''x4K_9mPq'') = Some 0
   \<and> status_code (fst (view_paste ctx_prod ''x4K_9mPq'' req_plain
        [''x4K_9mPq'' \<mapsto> paste_hello])) = 200"
  using page_render_never_counts [of "ctx_prod\<lparr>wall_clock := 1769864400000000\<rparr>" "''x4K_9mPq''"
      req_plain "[''x4K_9mPq'' \<mapsto> paste_hello]" "''x4K_9mPq''"]
    page_render_never_counts [of ctx_prod "''x4K_9mPq''"
      req_plain "[''x4K_9mPq'' \<mapsto> paste_hello]" "''x4K_9mPq''"]
  by (simp add: paste_hello_fields view_paste_def get_current_time_prod get_current_time_prod0
      view_paste_at_def is_available_def is_expired_Some)

subsection \<open>What a fetch writes\<close>

text \<open>
  Claim C10. A fetch (\<^verbatim>\<open>GET /api/pastes/{id}\<close>) of a stored paste answers 200, 404 or
  500; it leaves every other row untouched, and in the row of the paste it changes at
  most \<open>current_views\<close> and \<open>is_active\<close>. With 200, \<open>current_views\<close> has grown by exactly
  one and the paste was active; with 404, \<open>current_views\<close> is unchanged and \<open>is_active\<close> is
  false; with 500 the row is unchanged. \<open>is_active\<close> is never true after a fetch unless it
  was true before.
\<close>

theorem fetch_frame:
  "db pid = Some p \<and> fetch_paste c pid r db = (resp, db') \<longrightarrow>
     (\<exists>p'. db' pid = Some p'
        \<and> p' = p\<lparr>current_views := current_views p', is_active := is_active p'\<rparr>
        \<and> (status_code resp = 200 \<longrightarrow>
              current_views p' = current_views p + 1 \<and> is_active p)
        \<and> (status_code resp = 404 \<longrightarrow>
              current_views p' = current_views p \<and> \<not> is_active p')
        \<and> (status_code resp = 500 \<longrightarrow> p' = p)
        \<and> (is_active p' \<longrightarrow> is_active p))
     \<and> (\<forall>q. q \<noteq> pid \<longrightarrow> db' q = db q)
     \<and> (status_code resp = 200 \<or> status_code resp = 404 \<or> status_code resp = 500)"
proof
  assume a: "db pid = Some p \<and> fetch_paste c pid r db = (resp, db')"
  then have p: "db pid = Some p" and f: "fetch_paste c pid r db = (resp, db')" by simp_all
  from fetch_paste_cases [of db pid p c r, OF p] f
  consider (err) "resp = JSONResponse (JObj [(''error'', JStr ''Internal server error'')]) 500" "db' = db"
    | (rej) t where "\<not> is_available (wall_clock c) p (Some t)" "status_code resp = 404"
        "db' = db(pid \<mapsto> p\<lparr>is_active := False\<rparr>)"
    | (ok) t where "is_available (wall_clock c) p (Some t)" "status_code resp = 200"
        "db' = db(pid \<mapsto> p\<lparr>current_views := current_views p + 1,
                     is_active := (case max_views p of None \<Rightarrow> True
                                   | Some m \<Rightarrow> current_views p + 1 < m)\<rparr>)"
    by auto
  then show "(\<exists>p'. db' pid = Some p'
        \<and> p' = p\<lparr>current_views := current_views p', is_active := is_active p'\<rparr>
        \<and> (status_code resp = 200 \<longrightarrow>
              current_views p' = current_views p + 1 \<and> is_active p)
        \<and> (status_code resp = 404 \<longrightarrow>
              current_views p' = current_views p \<and> \<not> is_active p')
        \<and> (status_code resp = 500 \<longrightarrow> p' = p)
        \<and> (is_active p' \<longrightarrow> is_active p))
     \<and> (\<forall>q. q \<noteq> pid \<longrightarrow> db' q = db q)
     \<and> (status_code resp = 200 \<or> status_code resp = 404 \<or> status_code resp = 500)"
  proof cases
    case err
    then show ?thesis using p by simp
  next
    case rej
    then show ?thesis by simp
  next
    case ok
    then show ?thesis by (auto simp add: is_available_def split: if_splits)
  qed
qed

theorem fetch_frame_witness:
  "status_code (fst (fetch_paste ctx_prod ''x4K_9mPq'' req_plain [''x4K_9mPq'' \<mapsto> paste_hello])) = 200
   \<and> snd (fetch_paste ctx_prod ''x4K_9mPq'' req_plain [''x4K_9mPq'' \<mapsto> paste_hello]) ''x4K_9mPq''
       = Some (paste_hello\<lparr>current_views := 1\<rparr>)
   \<and> snd (fetch_paste ctx_prod ''x4K_9mPq'' req_plain [''x4K_9mPq'' \<mapsto> paste_hello]) ''abc'' = None"
  using fetch_frame [of "[''x4K_9mPq'' \<mapsto> paste_hello]" "''x4K_9mPq''" paste_hello ctx_prod
      req_plain "fst (fetch_paste ctx_prod ''x4K_9mPq'' req_plain [''x4K_9mPq'' \<mapsto> paste_hello])"
      "snd (fetch_paste ctx_prod ''x4K_9mPq'' req_plain [''x4K_9mPq'' \<mapsto> paste_hello])"]
  by (simp add: fetch_paste_hello)

subsection \<open>Remaining views\<close>

text \<open>
  Claim C5. \<open>get_remaining_views\<close> is absent exactly when \<open>max_views\<close> is absent, and is
  otherwise the maximum of 0 and \<open>max_views - current_views\<close>. Of two successful fetches
  of a paste, one right after the other, both report \<^verbatim>\<open>null\<close> when \<open>max_views\<close> is
  absent; otherwise the second reports one less than the first, and neither value is
  negative.
\<close>

theorem remaining_views_count_down:
  "get_remaining_views p = map_option (\<lambda>m. max 0 (m - current_views p)) (max_views p)
   \<and> ((get_remaining_views p = None) = (max_views p = None))
   \<and> (db pid = Some p \<and> fetch_paste c1 pid r1 db = (resp1, db1) \<and> status_code resp1 = 200
        \<and> fetch_paste c2 pid r2 db1 = (resp2, db2) \<and> status_code resp2 = 200 \<longrightarrow>
        (case max_views p of
           None \<Rightarrow> json_field ''remaining_views'' resp1 = Some JNull
                    \<and> json_field ''remaining_views'' resp2 = Some JNull
         | Some m \<Rightarrow>
             json_field ''remaining_views'' resp1 = Some (JInt (m - current_views p - 1))
             \<and> json_field ''remaining_views'' resp2 = Some (JInt (m - current_views p - 1 - 1))
             \<and> 0 \<le> m - current_views p - 1 - 1))"
proof (intro conjI impI)
  show "get_remaining_views p = map_option (\<lambda>m. max 0 (m - current_views p)) (max_views p)"
    by (simp add: get_remaining_views_def split: option.splits)
  show "(get_remaining_views p = None) = (max_views p = None)"
    by (simp add: get_remaining_views_def split: option.splits)
next
  assume a: "db pid = Some p \<and> fetch_paste c1 pid r1 db = (resp1, db1) \<and> status_code resp1 = 200
        \<and> fetch_paste c2 pid r2 db1 = (resp2, db2) \<and> status_code resp2 = 200"
  let ?p1 = "p\<lparr>current_views := current_views p + 1,
                is_active := (case max_views p of None \<Rightarrow> True
                              | Some m \<Rightarrow> current_views p + 1 < m)\<rparr>"
  from a have p: "db pid = Some p" by simp
  from fetch_paste_cases [of db pid p c1 r1, OF p] a
  obtain t1 where t1: "is_available (wall_clock c1) p (Some t1)"
      "fetch_paste c1 pid r1 db = fetch_paste_at c1 t1 pid db"
      "db1 = db(pid \<mapsto> ?p1)" "fits_integer (current_views p + 1)"
    by auto
  have r1: "resp1 = fst (fetch_paste_at c1 t1 pid db)"
    using a t1 by simp
  have p1: "db1 pid = Some ?p1" using t1 by simp
  from fetch_paste_cases [of db1 pid ?p1 c2 r2, OF p1] a
  obtain t2 where t2: "is_available (wall_clock c2) ?p1 (Some t2)"
      "fetch_paste c2 pid r2 db1 = fetch_paste_at c2 t2 pid db1"
      "fits_integer (current_views ?p1 + 1)"
    by auto
  have r2: "resp2 = fst (fetch_paste_at c2 t2 pid db1)"
    using a t2 by simp
  show "(case max_views p of
           None \<Rightarrow> json_field ''remaining_views'' resp1 = Some JNull
                    \<and> json_field ''remaining_views'' resp2 = Some JNull
         | Some m \<Rightarrow>
             json_field ''remaining_views'' resp1 = Some (JInt (m - current_views p - 1))
             \<and> json_field ''remaining_views'' resp2 = Some (JInt (m - current_views p - 1 - 1))
             \<and> 0 \<le> m - current_views p - 1 - 1)"
    using t2(1) fetch_paste_at_available [of db pid p c1 t1] p t1(1) t1(4)
      fetch_paste_at_available [of db1 pid ?p1 c2 t2] p1 t2(3)
    by (simp add: r1 r2 is_available_def is_view_limit_reached_def
        split: option.splits if_splits)
qed

theorem remaining_views_count_down_witness:
  "get_remaining_views paste_hello = Some 10
   \<and> json_field ''remaining_views''
        (fst (fetch_paste ctx_prod ''x4K_9mPq'' req_plain [''x4K_9mPq'' \<mapsto> paste_hello]))
       = Some (JInt 9)
   \<and> json_field ''remaining_views''
        (fst (fetch_paste ctx_prod ''x4K_9mPq'' req_plain
           (snd (fetch_paste ctx_prod ''x4K_9mPq'' req_plain [''x4K_9mPq'' \<mapsto> paste_hello]))))
       = Some (JInt 8)"
  using remaining_views_count_down [of paste_hello "[''x4K_9mPq'' \<mapsto> paste_hello]" "''x4K_9mPq''"
      ctx_prod req_plain
      "fst (fetch_paste ctx_prod ''x4K_9mPq'' req_plain [''x4K_9mPq'' \<mapsto> paste_hello])"
      "snd (fetch_paste ctx_prod ''x4K_9mPq'' req_plain [''x4K_9mPq'' \<mapsto> paste_hello])"
      ctx_prod req_plain
      "fst (fetch_paste ctx_prod ''x4K_9mPq'' req_plain
           (snd (fetch_paste ctx_prod ''x4K_9mPq'' req_plain [''x4K_9mPq'' \<mapsto> paste_hello])))"
      "snd (fetch_paste ctx_prod ''x4K_9mPq'' req_plain
           (snd (fetch_paste ctx_prod ''x4K_9mPq'' req_plain [''x4K_9mPq'' \<mapsto> paste_hello])))"]
  by (simp add: fetch_paste_hello fetch_paste_hello_again paste_hello_fields)

subsection \<open>Rows under arbitrary requests\<close>

text \<open>
  Whatever the request, a stored row stays stored, changes in \<open>current_views\<close> and
  \<open>is_active\<close> at most, and is not active afterwards unless it was before.
\<close>

lemma fetch_paste_keeps:
  assumes "db pid = Some p"
  shows "\<exists>p'. snd (fetch_paste c q r db) pid = Some p' \<and> (is_active p' \<longrightarrow> is_active p)
           \<and> p' = p\<lparr>current_views := current_views p', is_active := is_active p'\<rparr>"
proof (cases "q = pid")
  case True
  with fetch_paste_cases [of db pid p c r] assms show ?thesis
    by (auto simp add: is_available_def split: if_splits)
next
  case False
  then have "snd (fetch_paste c q r db) pid = db pid"
    by (simp add: fetch_paste_def fetch_paste_at_def Let_def split: sum.splits option.splits)
  with assms show ?thesis by simp
qed

lemma view_paste_keeps:
  assumes "db pid = Some p"
  shows "\<exists>p'. snd (view_paste c q r db) pid = Some p' \<and> (is_active p' \<longrightarrow> is_active p)
           \<and> p' = p\<lparr>current_views := current_views p', is_active := is_active p'\<rparr>"
  using assms
  by (cases "q = pid")
     (auto simp add: view_paste_def view_paste_at_def Let_def is_available_def
       split: sum.splits option.splits if_splits)

lemma create_paste_keeps:
  "db pid = Some p \<Longrightarrow> snd (create_paste c body r db) pid = Some p"
  by (auto simp add: create_paste_def Let_def dest!: insert_paste_Inr
      split: sum.splits option.splits if_splits)

lemma post_pastes_keeps:
  "db pid = Some p \<Longrightarrow> snd (post_pastes c r body db) pid = Some p"
  by (simp add: post_pastes_def create_paste_keeps split: list.splits)

lemma step_keeps:
  assumes "db pid = Some p"
  shows "\<exists>p'. snd (step x db) pid = Some p' \<and> (is_active p' \<longrightarrow> is_active p)
           \<and> p' = p\<lparr>current_views := current_views p', is_active := is_active p'\<rparr>"
proof (cases x)
  case (Create c r body)
  then show ?thesis using post_pastes_keeps [of db pid p c r body] assms by simp
next
  case (Fetch c q r)
  then show ?thesis using fetch_paste_keeps [of db pid p c q r] assms by simp
next
  case (View c q r)
  then show ?thesis using view_paste_keeps [of db pid p c q r] assms by simp
qed

lemma run_keeps:
  "db pid = Some p \<Longrightarrow>
   \<exists>p'. run ops db pid = Some p' \<and> (is_active p' \<longrightarrow> is_active p)
      \<and> p' = p\<lparr>current_views := current_views p', is_active := is_active p'\<rparr>"
proof (induction ops arbitrary: db p)
  case Nil
  then show ?case by simp
next
  case (Cons x xs)
  from step_keeps [of db pid p x] Cons.prems obtain p1 where
    p1: "snd (step x db) pid = Some p1" "is_active p1 \<longrightarrow> is_active p"
      "p1 = p\<lparr>current_views := current_views p1, is_active := is_active p1\<rparr>"
    by blast
  from Cons.IH [of "snd (step x db)" p1] p1(1) obtain p' where
    p': "run xs (snd (step x db)) pid = Some p'" "is_active p' \<longrightarrow> is_active p1"
      "p' = p1\<lparr>current_views := current_views p', is_active := is_active p'\<rparr>"
    by blast
  have "p' = p\<lparr>current_views := current_views p', is_active := is_active p'\<rparr>"
    by (subst p'(3), subst p1(3)) simp
  with p1 p' show ?case by simp
qed

text \<open>
  Claim C4. \<open>is_active\<close> is monotone: a row that is inactive stays inactive under every
  request (creation, fetch, page) and every sequence of requests. Therefore, once a
  fetch or a page render has found a stored paste unavailable at its reference time,
  every later fetch with a defined reference time answers 404, whatever requests came
  between and whatever that reference time is, also one before the expiry.
\<close>

theorem is_active_is_monotone:
  "(db pid = Some p \<and> \<not> is_active p \<longrightarrow> (\<exists>p'. snd (step x db) pid = Some p' \<and> \<not> is_active p'))
   \<and> (db pid = Some p \<and> \<not> is_active p \<longrightarrow> (\<exists>p'. run ops db pid = Some p' \<and> \<not> is_active p'))
   \<and> (db pid = Some p \<and> get_current_time c r = Inr t
        \<and> \<not> is_available (wall_clock c) p (Some t)
        \<and> (db1 = snd (fetch_paste c pid r db) \<or> db1 = snd (view_paste c pid r db))
        \<and> get_current_time c' r' = Inr t' \<longrightarrow>
        status_code (fst (fetch_paste c' pid r' (run ops db1))) = 404)"
proof (intro conjI impI)
  assume "db pid = Some p \<and> \<not> is_active p"
  then show "\<exists>p'. snd (step x db) pid = Some p' \<and> \<not> is_active p'"
    using step_keeps [of db pid p x] by auto
next
  assume "db pid = Some p \<and> \<not> is_active p"
  then show "\<exists>p'. run ops db pid = Some p' \<and> \<not> is_active p'"
    using run_keeps [of db pid p ops] by auto
next
  assume a: "db pid = Some p \<and> get_current_time c r = Inr t
        \<and> \<not> is_available (wall_clock c) p (Some t)
        \<and> (db1 = snd (fetch_paste c pid r db) \<or> db1 = snd (view_paste c pid r db))
        \<and> get_current_time c' r' = Inr t'"
  then have "db1 pid = Some (p\<lparr>is_active := False\<rparr>)"
    by (auto simp add: fetch_paste_resolved fetch_paste_at_unavailable view_paste_def
        view_paste_at_def Let_def)
  then obtain p' where p': "run ops db1 pid = Some p'" "\<not> is_active p'"
    using run_keeps [of db1 pid "p\<lparr>is_active := False\<rparr>" ops] by auto
  then have "\<not> is_available (wall_clock c') p' (Some t')"
    by (simp add: is_available_def)
  then show "status_code (fst (fetch_paste c' pid r' (run ops db1))) = 404"
    using a p' fetch_paste_at_unavailable [of "run ops db1" pid p' c' t']
    by (simp add: fetch_paste_resolved)
qed

theorem is_active_is_monotone_witness:
  "\<not> is_expired 0 paste_hello (Some 1769860800000000)
   \<and> map_option is_active
        (run [View ctx_prod ''x4K_9mPq'' req_plain, Create ctx_prod req_plain body_hello]
           [''x4K_9mPq'' \<mapsto> paste_hello\<lparr>is_active := False\<rparr>] ''x4K_9mPq'') = Some False
   \<and> status_code (fst (fetch_paste ctx_prod ''x4K_9mPq'' req_plain
        (run [View ctx_prod ''x4K_9mPq'' req_plain, Create ctx_prod req_plain body_hello]
          (snd (fetch_paste (ctx_prod\<lparr>wall_clock := 1769864400000000\<rparr>) ''x4K_9mPq'' req_plain
             [''x4K_9mPq'' \<mapsto> paste_hello]))))) = 404"
  using is_active_is_monotone [of "[''x4K_9mPq'' \<mapsto> paste_hello\<lparr>is_active := False\<rparr>]"
      "''x4K_9mPq''" "paste_hello\<lparr>is_active := False\<rparr>" "View ctx_prod ''x4K_9mPq'' req_plain"
      "[View ctx_prod ''x4K_9mPq'' req_plain, Create ctx_prod req_plain body_hello]"
      "ctx_prod\<lparr>wall_clock := 1769864400000000\<rparr>" req_plain 1769864400000000
      "snd (fetch_paste (ctx_prod\<lparr>wall_clock := 1769864400000000\<rparr>) ''x4K_9mPq'' req_plain
             [''x4K_9mPq'' \<mapsto> paste_hello\<lparr>is_active := False\<rparr>])"
      ctx_prod req_plain 1769860800000000]
    is_active_is_monotone [of "[''x4K_9mPq'' \<mapsto> paste_hello]"
      "''x4K_9mPq''" paste_hello "View ctx_prod ''x4K_9mPq'' req_plain"
      "[View ctx_prod ''x4K_9mPq'' req_plain, Create ctx_prod req_plain body_hello]"
      "ctx_prod\<lparr>wall_clock := 1769864400000000\<rparr>" req_plain 1769864400000000
      "snd (fetch_paste (ctx_prod\<lparr>wall_clock := 1769864400000000\<rparr>) ''x4K_9mPq'' req_plain
             [''x4K_9mPq'' \<mapsto> paste_hello])"
      ctx_prod req_plain 1769860800000000]
  by (auto simp add: get_current_time_prod get_current_time_prod0 is_available_def is_expired_Some
      paste_hello_fields simp del: run.simps step.simps)

subsection \<open>Expiry by views\<close>

lemma fetch_only_run:
  assumes "\<forall>x\<in>set ops. fetch_of pid x" and "db pid = Some p" and "max_views p = Some N"
    and "expires_at p = None" and "current_views p \<le> N"
    and "is_active p = (current_views p < N)"
    and "0 \<le> current_views p" and "fits_integer N"
  shows "\<exists>p'. run ops db pid = Some p' \<and> max_views p' = Some N \<and> expires_at p' = None
           \<and> content p' = content p
           \<and> current_views p' = min (current_views p + int (length ops)) N
           \<and> is_active p' = (current_views p' < N)"
  using assms
proof (induction ops arbitrary: db p)
  case Nil
  then show ?case by simp
next
  case (Cons x xs)
  from Cons.prems(1) obtain c r t where x: "x = Fetch c pid r" "get_current_time c r = Inr t"
    by (auto simp add: fetch_of_def split: op.splits sum.splits)
  have av: "is_available (wall_clock c) p (Some t) = (current_views p < N)"
    using Cons.prems by (auto simp add: is_available_def is_expired_Some is_view_limit_reached_def)
  let ?p1 = "if current_views p < N
             then p\<lparr>current_views := current_views p + 1, is_active := current_views p + 1 < N\<rparr>
             else p\<lparr>is_active := False\<rparr>"
  have fits: "current_views p < N \<Longrightarrow> fits_integer (current_views p + 1)"
    using Cons.prems(7,8) by (simp add: fits_integer_def)
  have s: "snd (step x db) pid = Some ?p1"
    using x av Cons.prems(2,3) fits fetch_paste_at_available [of db pid p c t]
      fetch_paste_at_unavailable [of db pid p c t]
    by (simp add: fetch_paste_resolved)
  have "\<exists>p'. run xs (snd (step x db)) pid = Some p' \<and> max_views p' = Some N \<and> expires_at p' = None
           \<and> content p' = content ?p1
           \<and> current_views p' = min (current_views ?p1 + int (length xs)) N
           \<and> is_active p' = (current_views p' < N)"
    using Cons.IH [of "snd (step x db)" ?p1] Cons.prems s by auto
  then show ?case
    using Cons.prems(5) by (auto split: if_splits)
qed

text \<open>
  Claim C2. Let a paste be created with \<open>max_views = N\<close> and no \<open>ttl_seconds\<close>; then
  \<open>N \<ge> 1\<close>. After any number \<open>k\<close> of fetches of it (each with a defined reference time),
  \<open>current_views\<close> is the minimum of \<open>k\<close> and \<open>N\<close>, so it never exceeds \<open>N\<close>; the next fetch
  answers 200 with the content and \<open>remaining_views = N - k - 1\<close> as long as \<open>k < N\<close> (the
  \<open>N\<close>-th fetch included), and 404 from the \<open>(N+1)\<close>-th on.
\<close>

theorem view_limit_serves_exactly_N:
  assumes "post_pastes c0 r0 body db0 = (resp0, db)" and "status_code resp0 = 200"
    and "max_views_in body = Some N" and "ttl_seconds_in body = None"
    and "\<forall>x\<in>set ops. fetch_of (generate_paste_id c0) x"
    and "get_current_time c r = Inr now"
  shows "1 \<le> N
     \<and> (\<exists>p. run ops db (generate_paste_id c0) = Some p
            \<and> current_views p = min (int (length ops)) N \<and> current_views p \<le> N)
     \<and> (if int (length ops) < N
         then fst (fetch_paste c (generate_paste_id c0) r (run ops db)) =
                JSONResponse (JObj [(''content'', JStr (content_in body)),
                   (''remaining_views'', JInt (N - int (length ops) - 1)),
                   (''expires_at'', JNull)]) 200
         else status_code (fst (fetch_paste c (generate_paste_id c0) r (run ops db))) = 404)"
proof -
  let ?pid = "generate_paste_id c0"
  from post_pastes_200 [of c0 r0 body db0 resp0 db] assms(1,2)
  obtain created where v: "validation_errors body = []"
    and db: "db = db0(token_urlsafe c0 \<mapsto>
                 \<lparr>paste_id = token_urlsafe c0, content = content_in body,
                  ttl_seconds = ttl_seconds_in body, max_views = max_views_in body,
                  current_views = 0, created_at = created,
                  expires_at = map_option (\<lambda>T. created + T * 1000000) (ttl_seconds_in body),
                  is_active = True\<rparr>)"
    by blast
  let ?p0 = "\<lparr>paste_id = token_urlsafe c0, content = content_in body,
                  ttl_seconds = None, max_views = Some N,
                  current_views = 0, created_at = created,
                  expires_at = None, is_active = True\<rparr>"
  have N: "1 \<le> N" "fits_integer N"
    using post_pastes_200_max_views [OF assms(1,2,3)] by simp_all
  have p0: "db ?pid = Some ?p0"
    using db assms(3,4) by (simp add: generate_paste_id_def)
  from fetch_only_run [of ops ?pid db ?p0 N] assms(5) p0 N
  obtain p where p: "run ops db ?pid = Some p" "max_views p = Some N" "expires_at p = None"
      "content p = content_in body" "current_views p = min (int (length ops)) N"
      "is_active p = (current_views p < N)"
    by auto
  have av: "is_available (wall_clock c) p (Some now) = (int (length ops) < N)"
    using p by (auto simp add: is_available_def is_expired_Some is_view_limit_reached_def)
  have last: "if int (length ops) < N
         then fst (fetch_paste c ?pid r (run ops db)) =
                JSONResponse (JObj [(''content'', JStr (content_in body)),
                   (''remaining_views'', JInt (N - int (length ops) - 1)),
                   (''expires_at'', JNull)]) 200
         else status_code (fst (fetch_paste c ?pid r (run ops db))) = 404"
    using av p assms(6) N fetch_paste_at_available [of "run ops db" ?pid p c now]
      fetch_paste_at_unavailable [of "run ops db" ?pid p c now]
    by (simp add: fetch_paste_resolved fits_integer_def)
  show ?thesis
    using N p last by auto
qed

theorem view_limit_serves_exactly_N_witness:
  "fst (fetch_paste ctx_prod ''x4K_9mPq'' req_plain
          (snd (post_pastes ctx_prod req_plain body_once Map.empty))) =
     JSONResponse (JObj [(''content'', JStr ''x''), (''remaining_views'', JInt 0),
        (''expires_at'', JNull)]) 200
   \<and> status_code (fst (fetch_paste ctx_prod ''x4K_9mPq'' req_plain
          (run [Fetch ctx_prod ''x4K_9mPq'' req_plain]
             (snd (post_pastes ctx_prod req_plain body_once Map.empty))))) = 404"
proof -
  let ?created = "post_pastes ctx_prod req_plain body_once Map.empty"
  have cr: "?created = (fst ?created, snd ?created)" "status_code (fst ?created) = 200"
    by (simp_all add: post_pastes_once)
  have b: "max_views_in body_once = Some 1" "ttl_seconds_in body_once = None"
    "content_in body_once = ''x''"
    by (simp_all add: body_once_def)
  have f: "\<forall>x\<in>set [Fetch ctx_prod ''x4K_9mPq'' req_plain]. fetch_of (generate_paste_id ctx_prod) x"
    "\<forall>x\<in>set []. fetch_of (generate_paste_id ctx_prod) x"
    by (simp_all add: fetch_of_def generate_paste_id_prod get_current_time_prod0)
  from view_limit_serves_exactly_N [OF cr b(1,2) f(2) get_current_time_prod0, of req_plain]
    view_limit_serves_exactly_N [OF cr b(1,2) f(1) get_current_time_prod0, of req_plain]
  show ?thesis
    by (simp add: generate_paste_id_prod b)
qed

subsection \<open>The answers of a failed fetch\<close>

text \<open>
  Claim C1 says that every failed fetch answers 404 with the one body
  \<^verbatim>\<open>{"error": "Paste not found"}\<close>. The status is 404 in every case, but the handler
  chooses the message by the cause: the fetch of an expired paste says so.
\<close>

theorem not_found_body_is_uniform_counterexample:
  "fst (fetch_paste (ctx_prod\<lparr>wall_clock := 1769864400000000\<rparr>) ''x4K_9mPq'' req_plain
          [''x4K_9mPq'' \<mapsto> paste_hello])
     = JSONResponse (JObj [(''error'', JStr ''Paste has expired'')]) 404
   \<and> fst (fetch_paste (ctx_prod\<lparr>wall_clock := 1769864400000000\<rparr>) ''x4K_9mPq'' req_plain
          [''x4K_9mPq'' \<mapsto> paste_hello])
     \<noteq> JSONResponse (JObj [(''error'', JStr ''Paste not found'')]) 404"
proof -
  have "\<not> is_available 1769864400000000 paste_hello (Some 1769864400000000)"
    by (simp add: is_available_def is_expired_Some paste_hello_fields)
  then show ?thesis
    using fetch_paste_at_unavailable [of "[''x4K_9mPq'' \<mapsto> paste_hello]" "''x4K_9mPq''"
        paste_hello "ctx_prod\<lparr>wall_clock := 1769864400000000\<rparr>" 1769864400000000]
    by (simp add: fetch_paste_resolved [OF get_current_time_prod] is_expired_Some
        paste_hello_fields)
qed

text \<open>
  Claim C1, as amended. For a fetch with a defined reference time: the answer is 404
  with \<^verbatim>\<open>{"error": m}\<close>, where \<open>m\<close> is \<^verbatim>\<open>Paste not found\<close> when the id is not stored,
  \<^verbatim>\<open>Paste has expired\<close> when the paste is time-expired, \<^verbatim>\<open>View limit exceeded\<close> when it is
  not time-expired and its view limit is reached, and \<^verbatim>\<open>Paste not available\<close> when it
  is neither and inactive. A 404 has no other cause.
\<close>

theorem not_found_message_by_cause:
  "get_current_time c r = Inr now \<longrightarrow>
     (db pid = None \<longrightarrow>
        fst (fetch_paste c pid r db) = JSONResponse (JObj [(''error'', JStr ''Paste not found'')]) 404)
   \<and> (db pid = Some p \<and> is_expired (wall_clock c) p (Some now) \<longrightarrow>
        fst (fetch_paste c pid r db) = JSONResponse (JObj [(''error'', JStr ''Paste has expired'')]) 404)
   \<and> (db pid = Some p \<and> \<not> is_expired (wall_clock c) p (Some now) \<and> is_view_limit_reached p \<longrightarrow>
        fst (fetch_paste c pid r db) = JSONResponse (JObj [(''error'', JStr ''View limit exceeded'')]) 404)
   \<and> (db pid = Some p \<and> \<not> is_expired (wall_clock c) p (Some now) \<and> \<not> is_view_limit_reached p
        \<and> \<not> is_active p \<longrightarrow>
        fst (fetch_paste c pid r db) = JSONResponse (JObj [(''error'', JStr ''Paste not available'')]) 404)
   \<and> (status_code (fst (fetch_paste c pid r db)) = 404 \<longrightarrow>
        db pid = None \<or> (\<exists>q. db pid = Some q \<and> (is_expired (wall_clock c) q (Some now)
            \<or> is_view_limit_reached q \<or> \<not> is_active q)))"
proof
  assume t: "get_current_time c r = Inr now"
  have f: "fetch_paste c pid r db = fetch_paste_at c now pid db"
    using t by (rule fetch_paste_resolved)
  show "(db pid = None \<longrightarrow>
        fst (fetch_paste c pid r db) = JSONResponse (JObj [(''error'', JStr ''Paste not found'')]) 404)
   \<and> (db pid = Some p \<and> is_expired (wall_clock c) p (Some now) \<longrightarrow>
        fst (fetch_paste c pid r db) = JSONResponse (JObj [(''error'', JStr ''Paste has expired'')]) 404)
   \<and> (db pid = Some p \<and> \<not> is_expired (wall_clock c) p (Some now) \<and> is_view_limit_reached p \<longrightarrow>
        fst (fetch_paste c pid r db) = JSONResponse (JObj [(''error'', JStr ''View limit exceeded'')]) 404)
   \<and> (db pid = Some p \<and> \<not> is_expired (wall_clock c) p (Some now) \<and> \<not> is_view_limit_reached p
        \<and> \<not> is_active p \<longrightarrow>
        fst (fetch_paste c pid r db) = JSONResponse (JObj [(''error'', JStr ''Paste not available'')]) 404)
   \<and> (status_code (fst (fetch_paste c pid r db)) = 404 \<longrightarrow>
        db pid = None \<or> (\<exists>q. db pid = Some q \<and> (is_expired (wall_clock c) q (Some now)
            \<or> is_view_limit_reached q \<or> \<not> is_active q)))"
  proof (intro conjI impI)
    assume "db pid = None"
    then show "fst (fetch_paste c pid r db) = JSONResponse (JObj [(''error'', JStr ''Paste not found'')]) 404"
      by (simp add: f fetch_paste_at_missing)
  next
    assume "db pid = Some p \<and> is_expired (wall_clock c) p (Some now)"
    then show "fst (fetch_paste c pid r db) = JSONResponse (JObj [(''error'', JStr ''Paste has expired'')]) 404"
      using fetch_paste_at_unavailable [of db pid p c now]
      by (simp add: f is_available_def)
  next
    assume "db pid = Some p \<and> \<not> is_expired (wall_clock c) p (Some now) \<and> is_view_limit_reached p"
    then show "fst (fetch_paste c pid r db) = JSONResponse (JObj [(''error'', JStr ''View limit exceeded'')]) 404"
      using fetch_paste_at_unavailable [of db pid p c now]
      by (simp add: f is_available_def)
  next
    assume "db pid = Some p \<and> \<not> is_expired (wall_clock c) p (Some now) \<and> \<not> is_view_limit_reached p
        \<and> \<not> is_active p"
    then show "fst (fetch_paste c pid r db) = JSONResponse (JObj [(''error'', JStr ''Paste not available'')]) 404"
      using fetch_paste_at_unavailable [of db pid p c now]
      by (simp add: f is_available_def)
  next
    assume s: "status_code (fst (fetch_paste c pid r db)) = 404"
    show "db pid = None \<or> (\<exists>q. db pid = Some q \<and> (is_expired (wall_clock c) q (Some now)
            \<or> is_view_limit_reached q \<or> \<not> is_active q))"
    proof (cases "db pid")
      case None
      then show ?thesis by simp
    next
      case (Some q)
      have "\<not> is_available (wall_clock c) q (Some now)"
        using s t Some fetch_paste_cases [of db pid q c r] by auto
      then show ?thesis
        using Some by (auto simp add: is_available_def split: if_splits)
    qed
  qed
qed

theorem not_found_message_by_cause_witness:
  "fst (fetch_paste ctx_prod ''x4K_9mPq'' req_plain Map.empty)
     = JSONResponse (JObj [(''error'', JStr ''Paste not found'')]) 404
   \<and> fst (fetch_paste (ctx_prod\<lparr>wall_clock := 1769864400000000\<rparr>) ''x4K_9mPq'' req_plain
          [''x4K_9mPq'' \<mapsto> paste_hello])
     = JSONResponse (JObj [(''error'', JStr ''Paste has expired'')]) 404
   \<and> fst (fetch_paste ctx_prod ''x4K_9mPq'' req_plain
          [''x4K_9mPq'' \<mapsto> paste_hello\<lparr>current_views := 10\<rparr>])
     = JSONResponse (JObj [(''error'', JStr ''View limit exceeded'')]) 404
   \<and> fst (fetch_paste ctx_prod ''x4K_9mPq'' req_plain
          [''x4K_9mPq'' \<mapsto> paste_hello\<lparr>is_active := False\<rparr>])
     = JSONResponse (JObj [(''error'', JStr ''Paste not available'')]) 404"
  using not_found_message_by_cause [of ctx_prod req_plain 1769860800000000 Map.empty
      "''x4K_9mPq''" paste_hello]
    not_found_message_by_cause [of "ctx_prod\<lparr>wall_clock := 1769864400000000\<rparr>" req_plain
      1769864400000000 "[''x4K_9mPq'' \<mapsto> paste_hello]" "''x4K_9mPq''" paste_hello]
    not_found_message_by_cause [of ctx_prod req_plain 1769860800000000
      "[''x4K_9mPq'' \<mapsto> paste_hello\<lparr>current_views := 10\<rparr>]" "''x4K_9mPq''"
      "paste_hello\<lparr>current_views := 10\<rparr>"]
    not_found_message_by_cause [of ctx_prod req_plain 1769860800000000
      "[''x4K_9mPq'' \<mapsto> paste_hello\<lparr>is_active := False\<rparr>]" "''x4K_9mPq''"
      "paste_hello\<lparr>is_active := False\<rparr>"]
  by (simp add: get_current_time_prod get_current_time_prod0 is_expired_Some
      is_view_limit_reached_def paste_hello_fields)

subsection \<open>Refused creation requests\<close>

text \<open>
  A body that a validator refuses never reaches the handler: the answer is FastAPI's
  own, status 422 with the errors under \<^verbatim>\<open>detail\<close>, and the table is unchanged. The
  handler registered under the status code 422 is not consulted.
\<close>

lemma invalid_body_is_answered_422:
  "validation_errors body \<noteq> [] \<Longrightarrow>
   post_pastes c r body db =
     (JSONResponse (JObj [(''detail'', JArr (map JStr (validation_errors body)))]) 422, db)"
  by (cases "validation_errors body")
     (simp_all add: post_pastes_def handle_exception_def exception_handlers_def)

lemma validation_errors_iff:
  "(validation_errors body \<noteq> []) =
     (content_in body = [] \<or> py_strip (content_in body) = []
      \<or> (\<exists>n. ttl_seconds_in body = Some n \<and> n < 1)
      \<or> (\<exists>n. max_views_in body = Some n \<and> n < 1))"
  by (auto simp add: validation_errors_def content_not_empty_def ttl_positive_def
      max_views_positive_def split: option.splits if_splits)

text \<open>
  Claim C8 at the body \<^verbatim>\<open>{"content": "   "}\<close>: the answer is 422 with a \<^verbatim>\<open>detail\<close> body,
  not 400 with an \<^verbatim>\<open>error\<close> body; no paste is stored.
\<close>

theorem invalid_content_is_answered_422:
  "post_pastes c r \<lparr>content_in = ''   '', ttl_seconds_in = None, max_views_in = None\<rparr> db =
     (JSONResponse (JObj [(''detail'', JArr [JStr ''content must be a non-empty string''])]) 422, db)"
  by (simp add: post_pastes_def validation_errors_def content_not_empty_def py_strip_def
      py_isspace_def ttl_positive_def max_views_positive_def handle_exception_def
      exception_handlers_def)

subsection \<open>The reference time of a request\<close>

text \<open>
  The year of an instant that a datetime holds is far inside the range of the C
  library, so the conversion of such an instant succeeds.
\<close>

lemma div_between:
  fixes a :: int
  assumes "lo \<le> a" and "a \<le> hi" and "0 < k"
  shows "lo div k \<le> a div k \<and> a div k \<le> hi div k"
  using assms by (simp add: zdiv_mono1)

lemma civil_year_bounds:
  assumes "0 \<le> z0 + 719468" and "z0 \<le> 3000000"
  shows "- 2 \<le> fst (civil_from_days z0) \<and> fst (civil_from_days z0) \<le> 12000"
proof -
  define z where "z = z0 + 719468"
  define era where "era = z div 146097"
  define doe where "doe = z mod 146097"
  define n where "n = doe - doe div 1460 + doe div 36524 - doe div 146096"
  define yoe where "yoe = n div 365"
  have z: "0 \<le> z" "z \<le> 3719468" using assms by (simp_all add: z_def)
  have era: "0 \<le> era" "era \<le> 25"
    using div_between [of 0 z 3719468 146097] z by (simp_all add: era_def)
  have doe: "0 \<le> doe" "doe \<le> 146096" unfolding doe_def by simp_all
  have a: "0 \<le> doe div 1460" "doe div 1460 \<le> 100"
    using div_between [of 0 doe 146096 1460] doe by simp_all
  have b: "0 \<le> doe div 36524" "doe div 36524 \<le> 4"
    using div_between [of 0 doe 146096 36524] doe by simp_all
  have c: "0 \<le> doe div 146096" "doe div 146096 \<le> 1"
    using div_between [of 0 doe 146096 146096] doe by simp_all
  have n: "- 365 \<le> n" "n \<le> 146100"
    using doe a b c by (simp_all add: n_def)
  have yoe: "- 1 \<le> yoe" "yoe \<le> 400"
    using div_between [of "- 365" n 146100 365] n by (simp_all add: yoe_def)
  have "fst (civil_from_days z0) = yoe + era * 400 \<or> fst (civil_from_days z0) = yoe + era * 400 + 1"
    unfolding civil_from_days_def Let_def z_def [symmetric] era_def [symmetric]
      doe_def [symmetric] n_def [symmetric] yoe_def [symmetric]
    by (simp only: fst_conv if_distrib [of fst] split: if_split) simp
  then show ?thesis using era yoe by auto
qed

lemma fromtimestamp_ms_Inr_iff:
  "(fromtimestamp_ms f n = Inr t) =
     (\<bar>n\<bar> < (2 ^ 1024 - 2 ^ 970) * 1000 \<and> t = f n \<and> datetime_min \<le> f n \<and> f n \<le> datetime_max)"
proof (cases "datetime_min \<le> f n \<and> f n \<le> datetime_max")
  case True
  then have d: "- 719162 \<le> f n div 86400000000" "f n div 86400000000 \<le> 2932896"
    using div_between [of datetime_min "f n" datetime_max 86400000000]
    by (simp_all add: datetime_min_def datetime_max_def)
  have y: "- 2 \<le> fst (civil_from_days (f n div 86400000000))"
      "fst (civil_from_days (f n div 86400000000)) \<le> 12000"
    using civil_year_bounds [of "f n div 86400000000"] d by simp_all
  have r: "\<not> (f n < - (2 ^ 63) * 1000000 \<or> 2 ^ 63 * 1000000 \<le> f n)"
    using True by (simp add: datetime_min_def datetime_max_def)
  show ?thesis
    unfolding fromtimestamp_ms_def Let_def
    using True y r by auto
next
  case False
  then show ?thesis
    unfolding fromtimestamp_ms_def Let_def by auto
qed

lemma get_current_time_off:
  "environ c ''TEST_MODE'' \<noteq> Some ''1'' \<Longrightarrow> get_current_time c r = Inr (wall_clock c)"
  by (simp add: get_current_time_def)

lemma get_current_time_on:
  "environ c ''TEST_MODE'' = Some ''1'' \<Longrightarrow>
   get_current_time c r =
     (case headers r ''x-test-now-ms'' of
        None \<Rightarrow> Inr (wall_clock c)
      | Some s \<Rightarrow>
          if s = [] then Inr (wall_clock c)
          else (case py_int (int_max_str_digits c) s of
                  None \<Rightarrow> Inr (wall_clock c)
                | Some n \<Rightarrow>
                    (case fromtimestamp_ms (float_us c) n of
                       Inr t \<Rightarrow> Inr t
                     | Inl (ValueError msg) \<Rightarrow> Inr (wall_clock c)
                     | Inl (OSError msg) \<Rightarrow> Inr (wall_clock c)
                     | Inl e \<Rightarrow> Inl e)))"
  by (simp add: get_current_time_def split: option.splits)

lemma ctx_test_fields:
  "environ ctx_test ''TEST_MODE'' = Some ''1''" "wall_clock ctx_test = 1769860800000000"
  "int_max_str_digits ctx_test = 4300" "float_us ctx_test n = n * 1000"
  "environ ctx_prod ''TEST_MODE'' = None" "wall_clock ctx_prod = 1769860800000000"
  by (simp_all add: ctx_test_def ctx_prod_def)

lemma req_at_header: "headers (req_at s) ''x-test-now-ms'' = Some s"
  "headers req_plain ''x-test-now-ms'' = None"
  by (simp_all add: req_at_def req_plain_def)

lemma py_int_examples:
  "py_int 4300 ''1704067200000'' = Some 1704067200000"
  "py_int 4300 ''1000000000000000000'' = Some 1000000000000000000"
  "py_int 4300 ''abc'' = None"
  by (simp_all add: py_int_def int_isspace_def digit_of_def)

text \<open>
  Claim C7 says that in test mode the reference time is the value of the header
  whenever the header parses as an integer. The header \<^verbatim>\<open>1000000000000000000\<close> does, but
  no datetime holds that instant (its year is 31690708): the conversion raises
  \<^verbatim>\<open>ValueError\<close>, the function catches it, and the reference time is the wall clock.
\<close>

theorem header_integer_is_now_counterexample:
  "environ ctx_test ''TEST_MODE'' = Some ''1''
   \<and> headers (req_at ''1000000000000000000'') ''x-test-now-ms'' = Some ''1000000000000000000''
   \<and> py_int (int_max_str_digits ctx_test) ''1000000000000000000'' = Some 1000000000000000000
   \<and> get_current_time ctx_test (req_at ''1000000000000000000'') = Inr (wall_clock ctx_test)
   \<and> wall_clock ctx_test \<noteq> 1000000000000000000 * 1000"
proof -
  have "fromtimestamp_ms (\<lambda>n. n * 1000) 1000000000000000000 = Inl (ValueError ''year is out of range'')"
    by (simp add: fromtimestamp_ms_def civil_from_days_def datetime_min_def datetime_max_def
        Let_def cong: let_weak_cong)
  then have "get_current_time ctx_test (req_at ''1000000000000000000'') = Inr (wall_clock ctx_test)"
    by (simp add: get_current_time_on ctx_test_fields req_at_header py_int_examples
        ctx_test_fields(4) [abs_def])
  then show ?thesis
    by (simp add: ctx_test_fields req_at_header py_int_examples)
qed

text \<open>
  Claim C7, as amended. Unless \<^verbatim>\<open>TEST_MODE\<close> is \<^verbatim>\<open>1\<close>, the reference time is the wall clock,
  the same for any two requests. In test mode it is the wall clock when the header
  \<^verbatim>\<open>x-test-now-ms\<close> is absent, empty or not an integer literal, and also when it is an
  integer whose instant fits \<^verbatim>\<open>time_t\<close> but is no datetime (a year outside 1 to 9999).
  When the header is an integer \<open>n\<close> whose instant is a datetime, the reference time
  is the instant that the conversion reads off the float \<open>n / 1000\<close>: the header's value,
  \<open>n\<close> milliseconds, wherever that float arithmetic is exact. (An integer beyond
  \<^verbatim>\<open>time_t\<close> makes the function raise; the statement is silent about it.)
\<close>

theorem reference_time_source:
  "(environ c ''TEST_MODE'' \<noteq> Some ''1'' \<longrightarrow>
      get_current_time c r = Inr (wall_clock c) \<and> get_current_time c r = get_current_time c r')
   \<and> (environ c ''TEST_MODE'' = Some ''1'' \<longrightarrow>
        (headers r ''x-test-now-ms'' = None \<longrightarrow> get_current_time c r = Inr (wall_clock c))
      \<and> (headers r ''x-test-now-ms'' = Some s
           \<and> (s = [] \<or> py_int (int_max_str_digits c) s = None) \<longrightarrow>
           get_current_time c r = Inr (wall_clock c))
      \<and> (headers r ''x-test-now-ms'' = Some s \<and> s \<noteq> []
           \<and> py_int (int_max_str_digits c) s = Some n
           \<and> \<bar>n\<bar> < (2 ^ 1024 - 2 ^ 970) * 1000 \<longrightarrow>
           (datetime_min \<le> float_us c n \<and> float_us c n \<le> datetime_max \<longrightarrow>
              get_current_time c r = Inr (float_us c n)
              \<and> (float_us c n = n * 1000 \<longrightarrow> get_current_time c r = Inr (n * 1000)))
         \<and> ((float_us c n < datetime_min \<or> datetime_max < float_us c n)
              \<and> - (2 ^ 63) * 1000000 \<le> float_us c n \<and> float_us c n < 2 ^ 63 * 1000000 \<longrightarrow>
              get_current_time c r = Inr (wall_clock c))))"
proof (intro conjI impI)
  assume off: "environ c ''TEST_MODE'' \<noteq> Some ''1''"
  then show "get_current_time c r = Inr (wall_clock c)"
    by (rule get_current_time_off)
  from off show "get_current_time c r = get_current_time c r'"
    by (simp add: get_current_time_off)
next
  assume "environ c ''TEST_MODE'' = Some ''1''" and "headers r ''x-test-now-ms'' = None"
  then show "get_current_time c r = Inr (wall_clock c)"
    by (simp add: get_current_time_on)
next
  assume "environ c ''TEST_MODE'' = Some ''1''"
    and "headers r ''x-test-now-ms'' = Some s \<and> (s = [] \<or> py_int (int_max_str_digits c) s = None)"
  then show "get_current_time c r = Inr (wall_clock c)"
    by (auto simp add: get_current_time_on)
next
  assume on: "environ c ''TEST_MODE'' = Some ''1''"
    and h: "headers r ''x-test-now-ms'' = Some s \<and> s \<noteq> []
           \<and> py_int (int_max_str_digits c) s = Some n \<and> \<bar>n\<bar> < (2 ^ 1024 - 2 ^ 970) * 1000"
    and rg: "datetime_min \<le> float_us c n \<and> float_us c n \<le> datetime_max"
  have "fromtimestamp_ms (float_us c) n = Inr (float_us c n)"
    using h rg by (simp add: fromtimestamp_ms_Inr_iff)
  then show g: "get_current_time c r = Inr (float_us c n)"
    using on h by (simp add: get_current_time_on)
  { assume "float_us c n = n * 1000"
    with g show "get_current_time c r = Inr (n * 1000)" by simp }
next
  assume on: "environ c ''TEST_MODE'' = Some ''1''"
    and h: "headers r ''x-test-now-ms'' = Some s \<and> s \<noteq> []
           \<and> py_int (int_max_str_digits c) s = Some n \<and> \<bar>n\<bar> < (2 ^ 1024 - 2 ^ 970) * 1000"
    and rg: "(float_us c n < datetime_min \<or> datetime_max < float_us c n)
              \<and> - (2 ^ 63) * 1000000 \<le> float_us c n \<and> float_us c n < 2 ^ 63 * 1000000"
  have "(\<exists>m. fromtimestamp_ms (float_us c) n = Inl (ValueError m))
        \<or> (\<exists>m. fromtimestamp_ms (float_us c) n = Inl (OSError m))"
    unfolding fromtimestamp_ms_def Let_def using h rg by auto
  then show "get_current_time c r = Inr (wall_clock c)"
    using on h by (auto simp add: get_current_time_on)
qed

theorem reference_time_source_witness:
  "get_current_time ctx_prod (req_at ''1704067200000'') = Inr 1769860800000000
   \<and> get_current_time ctx_prod (req_at ''1704067200000'') = get_current_time ctx_prod req_plain
   \<and> get_current_time ctx_test req_plain = Inr 1769860800000000
   \<and> get_current_time ctx_test (req_at ''abc'') = Inr 1769860800000000
   \<and> get_current_time ctx_test (req_at '''') = Inr 1769860800000000
   \<and> get_current_time ctx_test (req_at ''1704067200000'') = Inr 1704067200000000
   \<and> get_current_time ctx_test (req_at ''1000000000000000000'') = Inr 1769860800000000"
  using reference_time_source [of ctx_prod "req_at ''1704067200000''" req_plain "''''" 0]
    reference_time_source [of ctx_test req_plain req_plain "''''" 0]
    reference_time_source [of ctx_test "req_at ''abc''" req_plain "''abc''" 0]
    reference_time_source [of ctx_test "req_at ''''" req_plain "''''" 0]
    reference_time_source [of ctx_test "req_at ''1704067200000''" req_plain
      "''1704067200000''" 1704067200000]
    reference_time_source [of ctx_test "req_at ''1000000000000000000''" req_plain
      "''1000000000000000000''" 1000000000000000000]
  by (simp add: ctx_test_fields req_at_header py_int_examples datetime_min_def datetime_max_def
      get_current_time_prod0)

subsection \<open>The expiry timestamp\<close>

























end
